theory Spec2Isabelle
  imports Complex_Main
begin

section \<open>Python values and exceptions\<close>

text \<open>
  The values the program handles are the ones the JSON decoder produces: \<open>None\<close>, booleans,
  integers, floats, strings, lists and dictionaries (insertion ordered, as an association
  list). A Python \<open>str\<close> is a sequence of code points; it is modelled as a HOL string, one
  element per code point, so that \<open>length\<close> is Python's \<open>len\<close>.

  A Python \<open>float\<close> is an IEEE double: a finite value, which is a real number, an infinity
  or NaN. Its truth value and its comparison are exact and are defined here: \<open>0.0\<close> is
  the only falsy float, and \<open>x < y\<close> is false when either side is NaN. The arithmetic that
  rounds (the conversion of an \<open>int\<close> to a \<open>float\<close>, the addition of two floats) is not
  defined here: it is a parameter of the model, see \<open>pylib\<close> below. Not every real is a
  double; what is proved for every real holds for the doubles.
\<close>

datatype pyfloat = Fin real | PosInf | NegInf | NaN

fun float_truthy :: "pyfloat \<Rightarrow> bool" where
  "float_truthy (Fin x) = (x \<noteq> 0)"
| "float_truthy PosInf = True"
| "float_truthy NegInf = True"
| "float_truthy NaN = True"

fun float_lt :: "pyfloat \<Rightarrow> pyfloat \<Rightarrow> bool" where
  "float_lt (Fin x) (Fin y) = (x < y)"
| "float_lt (Fin x) PosInf = True"
| "float_lt (Fin x) NegInf = False"
| "float_lt (Fin x) NaN = False"
| "float_lt PosInf y = False"
| "float_lt NegInf (Fin y) = True"
| "float_lt NegInf PosInf = True"
| "float_lt NegInf NegInf = False"
| "float_lt NegInf NaN = False"
| "float_lt NaN y = False"

datatype json =
    JNull
  | JBool bool
  | JInt int
  | JFloat pyfloat
  | JStr string
  | JArr "json list"
  | JObj "(string \<times> json) list"

text \<open>Python's truth value of an object, as \<open>if x\<close>, \<open>x and y\<close> and \<open>not x\<close> test it.\<close>

fun truthy :: "json \<Rightarrow> bool" where
  "truthy JNull = False"
| "truthy (JBool b) = b"
| "truthy (JInt n) = (n \<noteq> 0)"
| "truthy (JFloat x) = float_truthy x"
| "truthy (JStr s) = (s \<noteq> [])"
| "truthy (JArr xs) = (xs \<noteq> [])"
| "truthy (JObj kvs) = (kvs \<noteq> [])"

fun type_name :: "json \<Rightarrow> string" where
  "type_name JNull = ''NoneType''"
| "type_name (JBool b) = ''bool''"
| "type_name (JInt n) = ''int''"
| "type_name (JFloat x) = ''float''"
| "type_name (JStr s) = ''str''"
| "type_name (JArr xs) = ''list''"
| "type_name (JObj kvs) = ''dict''"

text \<open>
  The exceptions that reach a caller. \<open>Exception m\<close> is the generic \<open>Exception(m)\<close> the
  source raises; the others are raised by the source (\<open>ValueError\<close>) or by the
  interpreter on a malformed token response. \<open>str_exn\<close> is Python's \<open>str(e)\<close>.
\<close>

datatype exn =
    Exception string
  | ValueError string
  | KeyError string
  | TypeError string
  | AttributeError string
  | OverflowError string

text \<open>A string between single quotes, as they stand in the messages below.\<close>

definition quoted :: "string \<Rightarrow> string" where
  "quoted s = CHR 0x27 # s @ [CHR 0x27]"

fun str_exn :: "exn \<Rightarrow> string" where
  "str_exn (Exception m) = m"
| "str_exn (ValueError m) = m"
| "str_exn (KeyError k) = quoted k"
| "str_exn (TypeError m) = m"
| "str_exn (AttributeError m) = m"
| "str_exn (OverflowError m) = m"

text \<open>\<open>data[key]\<close> for a string key.\<close>

fun getitem :: "json \<Rightarrow> string \<Rightarrow> exn + json" where
  "getitem (JObj kvs) k = (case map_of kvs k of None \<Rightarrow> Inl (KeyError k) | Some v \<Rightarrow> Inr v)"
| "getitem (JArr xs) k = Inl (TypeError ''list indices must be integers or slices, not str'')"
| "getitem (JStr s) k = Inl (TypeError (''string indices must be integers, not '' @ quoted ''str''))"
| "getitem v k = Inl (TypeError (quoted (type_name v) @ '' object is not subscriptable''))"

text \<open>\<open>data.get(key, default)\<close>.\<close>

fun get_default :: "json \<Rightarrow> string \<Rightarrow> json \<Rightarrow> exn + json" where
  "get_default (JObj kvs) k d = (case map_of kvs k of None \<Rightarrow> Inr d | Some v \<Rightarrow> Inr v)"
| "get_default v k d =
     Inl (AttributeError (quoted (type_name v) @ '' object has no attribute '' @ quoted ''get''))"

text \<open>\<open>str(n)\<close> for a non-negative integer.\<close>

fun str_nat :: "nat \<Rightarrow> string" where
  "str_nat n =
     (if n < 10 then [''0123456789'' ! n]
      else str_nat (n div 10) @ [''0123456789'' ! (n mod 10)])"

declare str_nat.simps [simp del]

text \<open>
  Four functions of the interpreter and its standard library are parameters of the model:
  \<open>dumps\<close> is \<open>json.dumps(\<cdot>, indent=2)\<close>; \<open>str_value\<close> is \<open>str\<close> on a value that is not a
  string; \<open>to_float\<close> is the conversion of an \<open>int\<close> to a \<open>float\<close>, which rounds to the
  nearest double and is \<open>None\<close> where Python raises \<open>OverflowError\<close>; \<open>fadd\<close> is the addition
  of two floats, which rounds and never raises. \<open>format_value\<close> is what an f-string does
  with \<open>{v}\<close>.
\<close>

record pylib =
  dumps :: "json \<Rightarrow> string"
  str_value :: "json \<Rightarrow> string"
  to_float :: "int \<Rightarrow> pyfloat option"
  fadd :: "pyfloat \<Rightarrow> pyfloat \<Rightarrow> pyfloat"

text \<open>
  \<open>x + v\<close> for a float \<open>x\<close>. An \<open>int\<close> (and a \<open>bool\<close>, which is an \<open>int\<close> in Python) is
  converted to a float first, which may raise; then the two floats are added. Any other
  operand raises \<open>TypeError\<close>.
\<close>

definition float_plus_int :: "pylib \<Rightarrow> pyfloat \<Rightarrow> int \<Rightarrow> exn + pyfloat" where
  "float_plus_int L x n =
     (case to_float L n of
        None \<Rightarrow> Inl (OverflowError ''int too large to convert to float'')
      | Some y \<Rightarrow> Inr (fadd L x y))"

fun float_add :: "pylib \<Rightarrow> pyfloat \<Rightarrow> json \<Rightarrow> exn + pyfloat" where
  "float_add L x (JInt n) = float_plus_int L x n"
| "float_add L x (JFloat y) = Inr (fadd L x y)"
| "float_add L x (JBool b) = float_plus_int L x (if b then 1 else 0)"
| "float_add L x v =
     Inl (TypeError (''unsupported operand type(s) for +: '' @ quoted ''float'' @ '' and '' @
       quoted (type_name v)))"

definition format_value :: "pylib \<Rightarrow> json \<Rightarrow> string" where
  "format_value L v = (case v of JStr s \<Rightarrow> s | _ \<Rightarrow> str_value L v)"

section \<open>The HTTP library\<close>

text \<open>
  A request as the \<open>requests\<close> functions receive it, and what comes back: either the call
  raises a \<open>RequestException\<close> (with its \<open>str\<close>, and the response it carries, if any), or it
  returns a response. \<open>body_json\<close> is the result of \<open>response.json()\<close>: the decoded value, or
  the message of the \<open>JSONDecodeError\<close> it raises (which is both a \<open>RequestException\<close> and a
  \<open>json.JSONDecodeError\<close>). The network is a function from requests to results; every
  call of a model function may be given a different one.
\<close>

record request =
  req_method :: string
  req_url :: string
  req_headers :: "(string \<times> string) list"
  req_auth :: "(string \<times> string) option"
  req_data :: "(string \<times> string) list option"
  req_json :: "json option"
  req_params :: "json option"

record response =
  status_code :: nat
  reason :: string
  resp_url :: string
  body_text :: string
  body_json :: "string + json"

datatype http_result =
    RequestFailed string "response option"
  | Responded response

type_synonym network = "request \<Rightarrow> http_result"

text \<open>
  \<open>response.raise_for_status()\<close>: the message of the \<open>HTTPError\<close> it raises, for a status
  in 400..599, and \<open>None\<close> when it returns.
\<close>

definition raise_for_status :: "response \<Rightarrow> string option" where
  "raise_for_status r =
     (if 400 \<le> status_code r \<and> status_code r < 500 then
        Some (str_nat (status_code r) @ '' Client Error: '' @ reason r @ '' for url: '' @ resp_url r)
      else if 500 \<le> status_code r \<and> status_code r < 600 then
        Some (str_nat (status_code r) @ '' Server Error: '' @ reason r @ '' for url: '' @ resp_url r)
      else None)"

section \<open>Configuration\<close>

text \<open>The process environment, after \<open>load_dotenv()\<close>; \<open>env k\<close> is \<open>os.getenv(k)\<close>.\<close>

type_synonym os_environ = "string \<Rightarrow> string option"

definition PIWIK_PRO_CLIENT_ID :: "os_environ \<Rightarrow> string option" where
  "PIWIK_PRO_CLIENT_ID env = env ''PIWIK_PRO_CLIENT_ID''"

definition PIWIK_PRO_CLIENT_SECRET :: "os_environ \<Rightarrow> string option" where
  "PIWIK_PRO_CLIENT_SECRET env = env ''PIWIK_PRO_CLIENT_SECRET''"

definition PIWIK_PRO_DOMAIN :: "os_environ \<Rightarrow> string" where
  "PIWIK_PRO_DOMAIN env =
     (case env ''PIWIK_PRO_DOMAIN'' of None \<Rightarrow> ''analytics.piwik.pro'' | Some d \<Rightarrow> d)"

definition BASE_URL :: "os_environ \<Rightarrow> string" where
  "BASE_URL env = ''https://'' @ PIWIK_PRO_DOMAIN env"

section \<open>The client\<close>

text \<open>
  The fields of class \<open>PiwikAnalytics\<close>. \<open>token\<close> is \<open>None\<close> (\<open>JNull\<close>) or whatever value the
  token response held under \<open>access_token\<close>; \<open>token_expiry\<close> is \<open>None\<close> or a float.
\<close>

record PiwikAnalytics =
  client_id :: string
  client_secret :: string
  domain :: string
  token :: json
  token_expiry :: "pyfloat option"

definition PiwikAnalytics_init :: "string \<Rightarrow> string \<Rightarrow> string \<Rightarrow> PiwikAnalytics" where
  "PiwikAnalytics_init cid secret d =
     \<lparr>client_id = cid, client_secret = secret, domain = d,
      token = JNull, token_expiry = None\<rparr>"

text \<open>
  A method returns its result or the exception it raises, the client after the call, and
  the requests it sent, in order.
\<close>

type_synonym 'a outcome = "(exn + 'a) \<times> PiwikAnalytics \<times> request list"

definition token_request :: "os_environ \<Rightarrow> PiwikAnalytics \<Rightarrow> request" where
  "token_request env c =
     \<lparr>req_method = ''POST'', req_url = BASE_URL env @ ''/auth/token'', req_headers = [],
      req_auth = Some (client_id c, client_secret c),
      req_data = Some [(''grant_type'', ''client_credentials'')],
      req_json = None, req_params = None\<rparr>"

text \<open>
  The cache test of \<open>_get_auth_token\<close>,
  \<open>self.token and self.token_expiry and current_timestamp < self.token_expiry\<close>:
  a token that is not falsy, an expiry that is neither \<open>None\<close> nor \<open>0.0\<close>, and a time
  before it.
\<close>

definition token_valid :: "PiwikAnalytics \<Rightarrow> real \<Rightarrow> bool" where
  "token_valid c now =
     (truthy (token c) \<and>
      (case token_expiry c of
         None \<Rightarrow> False
       | Some e \<Rightarrow> float_truthy e \<and> float_lt (Fin now) e))"

text \<open>
  \<open>_get_auth_token\<close>; \<open>now\<close> is \<open>datetime.now().timestamp()\<close>, a finite float. The
  assignment to \<open>self.token\<close> comes before \<open>expires_in\<close> is read and added.
\<close>

definition get_auth_token ::
  "pylib \<Rightarrow> os_environ \<Rightarrow> network \<Rightarrow> real \<Rightarrow> PiwikAnalytics \<Rightarrow> json outcome" where
  "get_auth_token L env net now c =
     (if token_valid c now then (Inr (token c), c, [])
      else
        let rq = token_request env c in
        (case net rq of
           RequestFailed msg ropt \<Rightarrow>
             (Inl (Exception (''Authentication failed: '' @ msg)), c, [rq])
         | Responded r \<Rightarrow>
             (case raise_for_status r of
                Some msg \<Rightarrow> (Inl (Exception (''Authentication failed: '' @ msg)), c, [rq])
              | None \<Rightarrow>
                  (case body_json r of
                     Inl msg \<Rightarrow> (Inl (Exception (''Authentication failed: '' @ msg)), c, [rq])
                   | Inr data \<Rightarrow>
                       (case getitem data ''access_token'' of
                          Inl e \<Rightarrow> (Inl e, c, [rq])
                        | Inr tok \<Rightarrow>
                            let c1 = c\<lparr>token := tok\<rparr> in
                            (case get_default data ''expires_in'' (JInt 3600) of
                               Inl e \<Rightarrow> (Inl e, c1, [rq])
                             | Inr expires_in \<Rightarrow>
                                 (case float_add L (Fin now) expires_in of
                                    Inl e \<Rightarrow> (Inl e, c1, [rq])
                                  | Inr t \<Rightarrow>
                                      (Inr tok, c1\<lparr>token_expiry := Some t\<rparr>, [rq]))))))))"

text \<open>
  The \<open>if\<close>/\<open>elif\<close> chain on the method in \<open>_make_api_call\<close>: the request sent, or \<open>None\<close>
  where the source raises \<open>ValueError\<close>.
\<close>

definition build_request ::
  "string \<Rightarrow> (string \<times> string) list \<Rightarrow> string \<Rightarrow> json option \<Rightarrow> json option \<Rightarrow> request option"
where
  "build_request url hdrs method data params =
     (if method = ''GET'' then
        Some \<lparr>req_method = ''GET'', req_url = url, req_headers = hdrs, req_auth = None,
              req_data = None, req_json = None, req_params = params\<rparr>
      else if method = ''POST'' then
        Some \<lparr>req_method = ''POST'', req_url = url, req_headers = hdrs, req_auth = None,
              req_data = None, req_json = data, req_params = None\<rparr>
      else if method = ''PUT'' then
        Some \<lparr>req_method = ''PUT'', req_url = url, req_headers = hdrs, req_auth = None,
              req_data = None, req_json = data, req_params = None\<rparr>
      else if method = ''DELETE'' then
        Some \<lparr>req_method = ''DELETE'', req_url = url, req_headers = hdrs, req_auth = None,
              req_data = None, req_json = None, req_params = None\<rparr>
      else None)"

text \<open>
  The message built in the \<open>except RequestException\<close> branch of \<open>_make_api_call\<close>, from
  \<open>str(e)\<close> and \<open>e.response\<close>.
\<close>

definition api_error_msg :: "pylib \<Rightarrow> string \<Rightarrow> response option \<Rightarrow> string" where
  "api_error_msg L msg ropt =
     ''API call failed: '' @ msg @
     (case ropt of
        None \<Rightarrow> []
      | Some r \<Rightarrow>
          (case body_json r of
             Inr details \<Rightarrow> ''\<newline>Error details: '' @ dumps L details
           | Inl _ \<Rightarrow> ''\<newline>Response text: '' @ body_text r)
          @ ''\<newline>Status code: '' @ str_nat (status_code r))"

definition api_headers :: "pylib \<Rightarrow> json \<Rightarrow> (string \<times> string) list" where
  "api_headers L tok =
     [(''Authorization'', ''Bearer '' @ format_value L tok),
      (''Content-Type'', ''application/json'')]"

text \<open>\<open>_make_api_call(endpoint, method, data, params)\<close>.\<close>

definition make_api_call ::
  "pylib \<Rightarrow> os_environ \<Rightarrow> network \<Rightarrow> real \<Rightarrow> PiwikAnalytics \<Rightarrow>
     string \<Rightarrow> string \<Rightarrow> json option \<Rightarrow> json option \<Rightarrow> json outcome"
where
  "make_api_call L env net now c endpoint method data params =
     (case get_auth_token L env net now c of
        (Inl e, c1, tr) \<Rightarrow> (Inl e, c1, tr)
      | (Inr tok, c1, tr) \<Rightarrow>
          (case build_request (BASE_URL env @ endpoint) (api_headers L tok) method data params of
             None \<Rightarrow> (Inl (ValueError (''Unsupported HTTP method: '' @ method)), c1, tr)
           | Some rq \<Rightarrow>
               (case net rq of
                  RequestFailed msg ropt \<Rightarrow>
                    (Inl (Exception (api_error_msg L msg ropt)), c1, tr @ [rq])
                | Responded r \<Rightarrow>
                    (case raise_for_status r of
                       Some msg \<Rightarrow>
                         (Inl (Exception (api_error_msg L msg (Some r))), c1, tr @ [rq])
                     | None \<Rightarrow>
                         (case body_json r of
                            Inr v \<Rightarrow> (Inr v, c1, tr @ [rq])
                          | Inl _ \<Rightarrow> (Inr (JStr (body_text r)), c1, tr @ [rq]))))))"

definition PiwikAnalytics_get_websites ::
  "pylib \<Rightarrow> os_environ \<Rightarrow> network \<Rightarrow> real \<Rightarrow> PiwikAnalytics \<Rightarrow> json outcome" where
  "PiwikAnalytics_get_websites L env net now c =
     make_api_call L env net now c ''/api/apps/v2'' ''GET'' None None"

definition PiwikAnalytics_get_website_details ::
  "pylib \<Rightarrow> os_environ \<Rightarrow> network \<Rightarrow> real \<Rightarrow> PiwikAnalytics \<Rightarrow> string \<Rightarrow> json outcome" where
  "PiwikAnalytics_get_website_details L env net now c website_id =
     make_api_call L env net now c (''/api/apps/v2/'' @ website_id) ''GET'' None None"

text \<open>The table \<open>metric_mapping\<close> of \<open>get_metrics\<close>.\<close>

definition metric_mapping :: "string \<Rightarrow> string option" where
  "metric_mapping =
     map_of [(''visits'', ''sessions''),
             (''pageviews'', ''page_views''),
             (''bounce_rate'', ''bounce_rate''),
             (''avg_time_on_site'', ''session_total_time''),
             (''unique_visitors'', ''visitors''),
             (''conversion_rate'', ''goal_conversion_rate''),
             (''revenue'', ''revenue''),
             (''cart_abandonment'', ''abandoned_cart_rate''),
             (''exit_rate'', ''exit_rate''),
             (''entry_rate'', ''entry_rate'')]"

text \<open>
  The loop over \<open>columns\<close>, from a given \<open>column_configs\<close> and a given list of the warnings
  logged so far (the other log calls of the program are not modelled).
\<close>

fun column_loop :: "string list \<Rightarrow> json list \<Rightarrow> string list \<Rightarrow> json list \<times> string list" where
  "column_loop [] column_configs warnings = (column_configs, warnings)"
| "column_loop (column # rest) column_configs warnings =
     (case metric_mapping column of
        Some cid \<Rightarrow>
          column_loop rest (column_configs @ [JObj [(''column_id'', JStr cid)]]) warnings
      | None \<Rightarrow>
          column_loop rest column_configs (warnings @ [''Unknown column: '' @ column]))"

definition metrics_payload :: "string \<Rightarrow> string \<Rightarrow> string \<Rightarrow> json list \<Rightarrow> json" where
  "metrics_payload website_id date_from date_to column_configs =
     JObj [(''website_id'', JStr website_id),
           (''date_from'', JStr date_from),
           (''date_to'', JStr date_to),
           (''columns'', JArr column_configs),
           (''format'', JStr ''json''),
           (''column_format'', JStr ''id''),
           (''offset'', JInt 0),
           (''limit'', JInt 100),
           (''options'', JObj [(''sampling'', JFloat (Fin 1.0))])]"

text \<open>\<open>PiwikAnalytics.get_metrics\<close>: the outcome of the call and the warnings logged.\<close>

definition PiwikAnalytics_get_metrics ::
  "pylib \<Rightarrow> os_environ \<Rightarrow> network \<Rightarrow> real \<Rightarrow> PiwikAnalytics \<Rightarrow>
     string \<Rightarrow> string \<Rightarrow> string \<Rightarrow> string list \<Rightarrow> json outcome \<times> string list"
where
  "PiwikAnalytics_get_metrics L env net now c website_id date_from date_to columns =
     (let (column_configs, warnings) = column_loop columns [] [] in
      (make_api_call L env net now c ''/api/analytics/v1/query'' ''POST''
         (Some (metrics_payload website_id date_from date_to column_configs)) None,
       warnings))"

text \<open>
  \<open>PiwikAnalytics.create_annotation\<close>; \<open>today\<close> is \<open>datetime.now().strftime("%Y-%m-%d")\<close>,
  and \<open>date or today\<close> takes \<open>today\<close> for \<open>None\<close> and for the empty string.
\<close>

definition annotation_payload :: "string \<Rightarrow> string \<Rightarrow> string option \<Rightarrow> string \<Rightarrow> string \<Rightarrow> json" where
  "annotation_payload website_id content date visibility today =
     JObj [(''data'',
        JObj [(''type'', JStr ''UserAnnotation''),
              (''attributes'',
                 JObj [(''content'', JStr content),
                       (''website_id'', JStr website_id),
                       (''date'', JStr (case date of None \<Rightarrow> today
                                        | Some d \<Rightarrow> if d = [] then today else d)),
                       (''visibility'', JStr visibility)])])]"

definition PiwikAnalytics_create_annotation ::
  "pylib \<Rightarrow> os_environ \<Rightarrow> network \<Rightarrow> real \<Rightarrow> string \<Rightarrow> PiwikAnalytics \<Rightarrow>
     string \<Rightarrow> string \<Rightarrow> string option \<Rightarrow> string \<Rightarrow> json outcome"
where
  "PiwikAnalytics_create_annotation L env net now today c website_id content date visibility =
     make_api_call L env net now c ''/api/analytics/v1/manage/annotation/user/'' ''POST''
       (Some (annotation_payload website_id content date visibility today)) None"

definition PiwikAnalytics_get_annotations ::
  "pylib \<Rightarrow> os_environ \<Rightarrow> network \<Rightarrow> real \<Rightarrow> PiwikAnalytics \<Rightarrow> string \<Rightarrow> json outcome" where
  "PiwikAnalytics_get_annotations L env net now c website_id =
     make_api_call L env net now c
       (''/api/analytics/v1/manage/annotation/user?website_id='' @ website_id) ''GET'' None None"

section \<open>The module-level client and the tools\<close>

text \<open>
  The global \<open>piwik\<close> after start-up: a client when both credentials are set and not
  empty, \<open>None\<close> otherwise.
\<close>

definition piwik_init :: "os_environ \<Rightarrow> PiwikAnalytics option" where
  "piwik_init env =
     (case PIWIK_PRO_CLIENT_ID env of
        None \<Rightarrow> None
      | Some cid \<Rightarrow>
          (case PIWIK_PRO_CLIENT_SECRET env of
             None \<Rightarrow> None
           | Some secret \<Rightarrow>
               if cid \<noteq> [] \<and> secret \<noteq> []
               then Some (PiwikAnalytics_init cid secret (PIWIK_PRO_DOMAIN env))
               else None))"

text \<open>
  A tool returns its string or the exception it raises, the global \<open>piwik\<close> after the
  call, and the requests sent. \<open>tool_return\<close> is the common \<open>try\<close> block:
  \<open>json.dumps(result, indent=2)\<close>, or \<open>Exception(str(e))\<close> for an exception of the client.
\<close>

type_synonym tool_outcome = "(exn + string) \<times> PiwikAnalytics option \<times> request list"

definition not_initialized :: exn where
  "not_initialized = Exception ''Piwik PRO API client not initialized. Check credentials.''"

definition tool_return :: "pylib \<Rightarrow> json outcome \<Rightarrow> tool_outcome" where
  "tool_return L out =
     (case out of (res, c1, tr) \<Rightarrow>
        ((case res of Inl e \<Rightarrow> Inl (Exception (str_exn e)) | Inr v \<Rightarrow> Inr (dumps L v)),
         Some c1, tr))"

definition list_websites ::
  "pylib \<Rightarrow> os_environ \<Rightarrow> network \<Rightarrow> real \<Rightarrow> PiwikAnalytics option \<Rightarrow> tool_outcome" where
  "list_websites L env net now piwik =
     (case piwik of
        None \<Rightarrow> (Inl not_initialized, piwik, [])
      | Some c \<Rightarrow> tool_return L (PiwikAnalytics_get_websites L env net now c))"

definition get_website_details ::
  "pylib \<Rightarrow> os_environ \<Rightarrow> network \<Rightarrow> real \<Rightarrow> PiwikAnalytics option \<Rightarrow> string \<Rightarrow> tool_outcome"
where
  "get_website_details L env net now piwik website_id =
     (case piwik of
        None \<Rightarrow> (Inl not_initialized, piwik, [])
      | Some c \<Rightarrow>
          if website_id = [] then (Inl (Exception ''website_id is required''), piwik, [])
          else tool_return L (PiwikAnalytics_get_website_details L env net now c website_id))"

definition get_metrics ::
  "pylib \<Rightarrow> os_environ \<Rightarrow> network \<Rightarrow> real \<Rightarrow> PiwikAnalytics option \<Rightarrow>
     string \<Rightarrow> string \<Rightarrow> string \<Rightarrow> string list \<Rightarrow> tool_outcome"
where
  "get_metrics L env net now piwik website_id date_from date_to columns =
     (case piwik of
        None \<Rightarrow> (Inl not_initialized, piwik, [])
      | Some c \<Rightarrow>
          if website_id = [] then (Inl (Exception ''website_id is required''), piwik, [])
          else if date_from = [] then (Inl (Exception ''date_from is required''), piwik, [])
          else if date_to = [] then (Inl (Exception ''date_to is required''), piwik, [])
          else if columns = [] then
            (Inl (Exception ''At least one column is required''), piwik, [])
          else tool_return L
                 (fst (PiwikAnalytics_get_metrics L env net now c
                         website_id date_from date_to columns)))"

text \<open>
  \<open>create_annotation\<close>: the optional arguments are \<open>None\<close> when the caller omits them;
  \<open>visibility\<close> then takes its default \<open>"private"\<close>, and \<open>date\<close> stays \<open>None\<close>.
\<close>

definition create_annotation ::
  "pylib \<Rightarrow> os_environ \<Rightarrow> network \<Rightarrow> real \<Rightarrow> string \<Rightarrow> PiwikAnalytics option \<Rightarrow>
     string \<Rightarrow> string \<Rightarrow> string option \<Rightarrow> string option \<Rightarrow> tool_outcome"
where
  "create_annotation L env net now today piwik website_id content date visibility_arg =
     (let visibility = (case visibility_arg of None \<Rightarrow> ''private'' | Some v \<Rightarrow> v) in
      case piwik of
        None \<Rightarrow> (Inl not_initialized, piwik, [])
      | Some c \<Rightarrow>
          if website_id = [] then (Inl (Exception ''website_id is required''), piwik, [])
          else if content = [] then (Inl (Exception ''content is required''), piwik, [])
          else if length content > 150 then
            (Inl (Exception ''content must be 150 characters or less''), piwik, [])
          else if visibility \<notin> set [''private'', ''public''] then
            (Inl (Exception (''visibility must be '' @ quoted ''private'' @ '' or '' @ quoted ''public'')),
             piwik, [])
          else tool_return L
                 (PiwikAnalytics_create_annotation L env net now today c
                    website_id content date visibility))"

definition get_annotations ::
  "pylib \<Rightarrow> os_environ \<Rightarrow> network \<Rightarrow> real \<Rightarrow> PiwikAnalytics option \<Rightarrow> string \<Rightarrow> tool_outcome"
where
  "get_annotations L env net now piwik website_id =
     (case piwik of
        None \<Rightarrow> (Inl not_initialized, piwik, [])
      | Some c \<Rightarrow>
          if website_id = [] then (Inl (Exception ''website_id is required''), piwik, [])
          else tool_return L (PiwikAnalytics_get_annotations L env net now c website_id))"

section \<open>Concrete inputs\<close>

text \<open>
  Environments, clients, responses and networks on which the theorems below are
  evaluated. \<open>sample_lib\<close> stands for the library functions. Nothing depends on what its
  \<open>dumps\<close> and \<open>str_value\<close> print. Its float operations are Python's on the integers of
  magnitude up to \<open>2 ^ 53\<close>, where the conversion and the addition of doubles are exact;
  anywhere else they answer NaN, and no example below leaves that range.
\<close>

definition exact_int :: "real \<Rightarrow> bool" where
  "exact_int x = (x = real_of_int \<lfloor>x\<rfloor> \<and> \<bar>x\<bar> \<le> 2 ^ 53)"

definition sample_to_float :: "int \<Rightarrow> pyfloat option" where
  "sample_to_float n = (if \<bar>n\<bar> \<le> 2 ^ 53 then Some (Fin (real_of_int n)) else Some NaN)"

definition sample_fadd :: "pyfloat \<Rightarrow> pyfloat \<Rightarrow> pyfloat" where
  "sample_fadd x y =
     (case x of
        Fin a \<Rightarrow>
          (case y of
             Fin b \<Rightarrow> if exact_int a \<and> exact_int b \<and> exact_int (a + b) then Fin (a + b) else NaN
           | _ \<Rightarrow> NaN)
      | _ \<Rightarrow> NaN)"

definition sample_lib :: pylib where
  "sample_lib =
     \<lparr>dumps = (\<lambda>v. ''<dumps>''), str_value = (\<lambda>v. ''<str>''),
      to_float = sample_to_float, fadd = sample_fadd\<rparr>"

definition env_default :: os_environ where
  "env_default =
     map_of [(''PIWIK_PRO_CLIENT_ID'', ''id''), (''PIWIK_PRO_CLIENT_SECRET'', ''secret'')]"

definition env_custom :: os_environ where
  "env_custom =
     map_of [(''PIWIK_PRO_CLIENT_ID'', ''id''), (''PIWIK_PRO_CLIENT_SECRET'', ''secret''),
             (''PIWIK_PRO_DOMAIN'', ''example.piwik.pro'')]"

definition env_no_secret :: os_environ where
  "env_no_secret = map_of [(''PIWIK_PRO_CLIENT_ID'', ''id'')]"

definition client_fresh :: PiwikAnalytics where
  "client_fresh = PiwikAnalytics_init ''id'' ''secret'' ''analytics.piwik.pro''"

definition client_cached :: PiwikAnalytics where
  "client_cached = client_fresh\<lparr>token := JStr ''abc'', token_expiry := Some (Fin 4600)\<rparr>"

definition client_empty_token :: PiwikAnalytics where
  "client_empty_token = client_fresh\<lparr>token := JStr [], token_expiry := Some (Fin 4600)\<rparr>"

definition client_custom :: PiwikAnalytics where
  "client_custom = PiwikAnalytics_init ''id'' ''secret'' ''example.piwik.pro''"

definition token_ok :: response where
  \<open>token_ok =
     \<lparr>status_code = 200, reason = ''OK'',
      resp_url = ''https://analytics.piwik.pro/auth/token'',
      body_text = ''{"access_token": "abc"}'',
      body_json = Inr (JObj [(''access_token'', JStr ''abc'')])\<rparr>\<close>

definition token_short :: response where
  \<open>token_short =
     \<lparr>status_code = 200, reason = ''OK'',
      resp_url = ''https://analytics.piwik.pro/auth/token'',
      body_text = ''{"access_token": "abc", "expires_in": 60}'',
      body_json = Inr (JObj [(''access_token'', JStr ''abc''), (''expires_in'', JInt 60)])\<rparr>\<close>

definition token_empty :: response where
  \<open>token_empty =
     \<lparr>status_code = 200, reason = ''OK'',
      resp_url = ''https://analytics.piwik.pro/auth/token'',
      body_text = ''{"access_token": ""}'',
      body_json = Inr (JObj [(''access_token'', JStr [])])\<rparr>\<close>

definition token_denied :: response where
  \<open>token_denied =
     \<lparr>status_code = 401, reason = ''Unauthorized'',
      resp_url = ''https://analytics.piwik.pro/auth/token'',
      body_text = ''{"error": "invalid_client"}'',
      body_json = Inr (JObj [(''error'', JStr ''invalid_client'')])\<rparr>\<close>

definition token_partial :: response where
  \<open>token_partial =
     \<lparr>status_code = 300, reason = ''Multiple Choices'',
      resp_url = ''https://analytics.piwik.pro/auth/token'',
      body_text = ''{"access_token": "xyz", "expires_in": "3600"}'',
      body_json = Inr (JObj [(''access_token'', JStr ''xyz''), (''expires_in'', JStr ''3600'')])\<rparr>\<close>

definition sites_json :: response where
  \<open>sites_json =
     \<lparr>status_code = 200, reason = ''OK'',
      resp_url = ''https://analytics.piwik.pro/api/apps/v2'',
      body_text = ''{"data": []}'',
      body_json = Inr (JObj [(''data'', JArr [])])\<rparr>\<close>

definition sites_text :: response where
  "sites_text =
     \<lparr>status_code = 200, reason = ''OK'',
      resp_url = ''https://analytics.piwik.pro/api/apps/v2'',
      body_text = ''pong'',
      body_json = Inl ''Expecting value: line 1 column 1 (char 0)''\<rparr>"

definition sites_not_modified :: response where
  "sites_not_modified =
     \<lparr>status_code = 304, reason = ''Not Modified'',
      resp_url = ''https://analytics.piwik.pro/api/apps/v2'',
      body_text = [],
      body_json = Inl ''Expecting value: line 1 column 1 (char 0)''\<rparr>"

definition sites_not_found :: response where
  \<open>sites_not_found =
     \<lparr>status_code = 404, reason = ''Not Found'',
      resp_url = ''https://analytics.piwik.pro/api/apps/v2'',
      body_text = ''{"message": "gone"}'',
      body_json = Inr (JObj [(''message'', JStr ''gone'')])\<rparr>\<close>

definition sites_unavailable :: response where
  "sites_unavailable =
     \<lparr>status_code = 503, reason = ''Service Unavailable'',
      resp_url = ''https://analytics.piwik.pro/api/apps/v2'',
      body_text = ''try later'',
      body_json = Inl ''Expecting value: line 1 column 1 (char 0)''\<rparr>"

text \<open>Networks: one that answers every request with the same result.\<close>

definition net_const :: "http_result \<Rightarrow> network" where
  "net_const res rq = res"

text \<open>
  A network that answers the token request with \<open>tok\<close> and every other request with
  \<open>api\<close>.
\<close>

definition net_pair :: "http_result \<Rightarrow> http_result \<Rightarrow> network" where
  "net_pair tok api rq = (if req_auth rq \<noteq> None then tok else api)"

text \<open>The request for the list of websites, with the token \<open>abc\<close>.\<close>

definition sites_request :: request where
  "sites_request =
     \<lparr>req_method = ''GET'', req_url = ''https://analytics.piwik.pro/api/apps/v2'',
      req_headers = [(''Authorization'', ''Bearer abc''), (''Content-Type'', ''application/json'')],
      req_auth = None, req_data = None, req_json = None, req_params = None\<rparr>"

text \<open>
  The metrics query for the columns \<open>visits\<close> and \<open>bogus_column\<close>, with the token
  \<open>abc\<close>.
\<close>

definition metrics_request :: request where
  "metrics_request =
     \<lparr>req_method = ''POST'', req_url = ''https://analytics.piwik.pro/api/analytics/v1/query'',
      req_headers = [(''Authorization'', ''Bearer abc''), (''Content-Type'', ''application/json'')],
      req_auth = None, req_data = None,
      req_json = Some (JObj [(''website_id'', JStr ''site''),
                             (''date_from'', JStr ''2024-01-01''),
                             (''date_to'', JStr ''2024-01-31''),
                             (''columns'', JArr [JObj [(''column_id'', JStr ''sessions'')]]),
                             (''format'', JStr ''json''),
                             (''column_format'', JStr ''id''),
                             (''offset'', JInt 0),
                             (''limit'', JInt 100),
                             (''options'', JObj [(''sampling'', JFloat (Fin 1.0))])]),
      req_params = None\<rparr>"

text \<open>The request for the list of websites on the domain \<open>example.piwik.pro\<close>.\<close>

definition custom_sites_request :: request where
  "custom_sites_request =
     \<lparr>req_method = ''GET'', req_url = ''https://example.piwik.pro/api/apps/v2'',
      req_headers = [(''Authorization'', ''Bearer abc''), (''Content-Type'', ''application/json'')],
      req_auth = None, req_data = None, req_json = None, req_params = None\<rparr>"

text \<open>An annotation text of a given length.\<close>

definition content_of_length :: "nat \<Rightarrow> string" where
  "content_of_length n = replicate n (CHR ''x'')"

section \<open>Properties of the token cache and of an API call\<close>

lemma get_auth_token_hit:
  "token_valid c now \<Longrightarrow> get_auth_token L env net now c = (Inr (token c), c, [])"
  by (simp add: get_auth_token_def)

lemma get_auth_token_miss_trace:
  "\<not> token_valid c now \<Longrightarrow> snd (snd (get_auth_token L env net now c)) = [token_request env c]"
  by (simp add: get_auth_token_def Let_def split: http_result.splits option.splits sum.splits)

lemma getitem_Inr:
  "getitem data k = Inr v \<Longrightarrow> \<exists>kvs. data = JObj kvs \<and> map_of kvs k = Some v"
  by (cases data) (auto split: option.splits)

lemma getitem_not_Exception: "getitem data k \<noteq> Inl (Exception m)"
  by (cases data) (auto split: option.splits)

lemma get_default_not_Exception: "get_default data k d \<noteq> Inl (Exception m)"
  by (cases data) (auto split: option.splits)

lemma float_add_not_Exception: "float_add L x v \<noteq> Inl (Exception m)"
  by (cases v) (auto simp: float_plus_int_def split: option.splits)

lemma get_auth_token_miss_success:
  assumes "\<not> token_valid c now" and "get_auth_token L env net now c = (Inr tok, c1, tr)"
  shows "\<exists>r kvs e. net (token_request env c) = Responded r \<and> raise_for_status r = None \<and>
           body_json r = Inr (JObj kvs) \<and> map_of kvs ''access_token'' = Some tok \<and>
           float_add L (Fin now) (case map_of kvs ''expires_in'' of None \<Rightarrow> JInt 3600 | Some v \<Rightarrow> v) = Inr e \<and>
           c1 = c\<lparr>token := tok, token_expiry := Some e\<rparr> \<and> tr = [token_request env c]"
proof -
  let ?rq = "token_request env c"
  from assms obtain r where r: "net ?rq = Responded r"
    by (cases "net ?rq") (auto simp: get_auth_token_def Let_def)
  from assms r have st: "raise_for_status r = None"
    by (cases "raise_for_status r") (auto simp: get_auth_token_def Let_def)
  from assms r st obtain data where data: "body_json r = Inr data"
    by (cases "body_json r") (auto simp: get_auth_token_def Let_def)
  from assms r st data obtain t where t: "getitem data ''access_token'' = Inr t"
    by (cases "getitem data ''access_token''") (auto simp: get_auth_token_def Let_def)
  from getitem_Inr [OF t] obtain kvs where kvs: "data = JObj kvs" "map_of kvs ''access_token'' = Some t"
    by blast
  let ?v = "case map_of kvs ''expires_in'' of None \<Rightarrow> JInt 3600 | Some v \<Rightarrow> v"
  have gd: "get_default data ''expires_in'' (JInt 3600) = Inr ?v"
    using kvs by (simp split: option.splits)
  from assms r st data t gd obtain e where e: "float_add L (Fin now) ?v = Inr e"
    by (cases "float_add L (Fin now) ?v") (auto simp: get_auth_token_def Let_def)
  from assms r st data t gd e have "tok = t" "c1 = c\<lparr>token := t, token_expiry := Some e\<rparr>"
    "tr = [?rq]"
    by (auto simp: get_auth_token_def Let_def)
  with r st data kvs e show ?thesis by auto
qed

lemma get_auth_token_Exception_unchanged:
  assumes "get_auth_token L env net now c = (Inl (Exception m), c1, tr)"
  shows "c1 = c"
  using assms getitem_not_Exception get_default_not_Exception float_add_not_Exception
  by (auto simp: get_auth_token_def Let_def
      split: if_splits http_result.splits option.splits sum.splits)

lemma get_auth_token_config:
  "client_id (fst (snd (get_auth_token L env net now c))) = client_id c \<and>
   client_secret (fst (snd (get_auth_token L env net now c))) = client_secret c \<and>
   domain (fst (snd (get_auth_token L env net now c))) = domain c"
  by (simp add: get_auth_token_def Let_def
      split: http_result.splits option.splits sum.splits)

lemma raise_for_status_None_iff:
  "(raise_for_status r = None) = (\<not> (400 \<le> status_code r \<and> status_code r < 600))"
  by (auto simp: raise_for_status_def)

lemma build_request_Some:
  assumes "build_request url hdrs method data params = Some rq"
  shows "req_url rq = url \<and> req_method rq = method \<and> req_headers rq = hdrs \<and>
         req_auth rq = None \<and> req_data rq = None \<and>
         req_json rq = (if method = ''POST'' \<or> method = ''PUT'' then data else None) \<and>
         req_params rq = (if method = ''GET'' then params else None)"
  using assms by (auto simp: build_request_def split: if_splits)

lemma build_request_None_iff:
  "(build_request url hdrs method data params = None) =
   (method \<notin> {''GET'', ''POST'', ''PUT'', ''DELETE''})"
  by (simp add: build_request_def)

lemma make_api_call_auth_failed:
  "get_auth_token L env net now c = (Inl e, c1, tr) \<Longrightarrow>
   make_api_call L env net now c endpoint method data params = (Inl e, c1, tr)"
  by (simp add: make_api_call_def)

lemma make_api_call_responded:
  assumes "get_auth_token L env net now c = (Inr tok, c1, tr)"
    and "build_request (BASE_URL env @ endpoint) (api_headers L tok) method data params = Some rq"
    and "net rq = Responded r"
  shows "make_api_call L env net now c endpoint method data params =
     (case raise_for_status r of
        Some msg \<Rightarrow> (Inl (Exception (api_error_msg L msg (Some r))), c1, tr @ [rq])
      | None \<Rightarrow>
          (case body_json r of
             Inr v \<Rightarrow> (Inr v, c1, tr @ [rq])
           | Inl _ \<Rightarrow> (Inr (JStr (body_text r)), c1, tr @ [rq])))"
  using assms by (simp add: make_api_call_def)

lemma make_api_call_trace:
  "\<exists>tok. set (snd (snd (make_api_call L env net now c endpoint method data params))) \<subseteq>
     set (snd (snd (get_auth_token L env net now c))) \<union>
     set_option (build_request (BASE_URL env @ endpoint) (api_headers L tok) method data params)"
proof (cases "get_auth_token L env net now c")
  case (fields res c1 tr)
  show ?thesis
  proof (cases res)
    case (Inl e)
    with fields show ?thesis by (simp add: make_api_call_def)
  next
    case (Inr tok)
    with fields show ?thesis
      by (intro exI [of _ tok])
         (auto simp: make_api_call_def split: option.splits http_result.splits sum.splits)
  qed
qed

lemma get_auth_token_trace_subset:
  "set (snd (snd (get_auth_token L env net now c))) \<subseteq> {token_request env c}"
  using get_auth_token_hit [of c now L env net] get_auth_token_miss_trace [of c now L env net]
  by (cases "token_valid c now") auto

lemma make_api_call_config:
  "client_id (fst (snd (make_api_call L env net now c endpoint method data params))) = client_id c \<and>
   client_secret (fst (snd (make_api_call L env net now c endpoint method data params))) = client_secret c \<and>
   domain (fst (snd (make_api_call L env net now c endpoint method data params))) = domain c"
proof (cases "get_auth_token L env net now c")
  case (fields res c1 tr)
  with get_auth_token_config [of L env net now c]
  have "client_id c1 = client_id c \<and> client_secret c1 = client_secret c \<and> domain c1 = domain c"
    by simp
  with fields show ?thesis
    by (auto simp: make_api_call_def split: option.splits http_result.splits sum.splits)
qed

lemma column_loop_acc:
  "column_loop columns cfgs ws =
     (cfgs @ map (\<lambda>n. JObj [(''column_id'', JStr (the (metric_mapping n)))])
               (filter (\<lambda>n. metric_mapping n \<noteq> None) columns),
      ws @ map (\<lambda>n. ''Unknown column: '' @ n) (filter (\<lambda>n. metric_mapping n = None) columns))"
  by (induction columns arbitrary: cfgs ws) (auto split: option.splits)

section \<open>Column resolution\<close>

text \<open>
  C2. The loop of \<open>get_metrics\<close> turns the requested names into exactly the entries
  \<open>{"column_id": metric_mapping[name]}\<close> of the names that are keys of the table, in the
  order and multiplicity of the request; every other name adds one warning and nothing
  else. Whatever the names, the method then makes its API call with the columns that
  resolved. For \<open>["visits", "bogus_column"]\<close> the list is the single entry for
  \<open>sessions\<close>.
\<close>

theorem column_resolution:
  "column_loop columns [] [] =
     (map (\<lambda>n. JObj [(''column_id'', JStr (the (metric_mapping n)))])
          (filter (\<lambda>n. metric_mapping n \<noteq> None) columns),
      map (\<lambda>n. ''Unknown column: '' @ n) (filter (\<lambda>n. metric_mapping n = None) columns)) \<and>
   PiwikAnalytics_get_metrics L env net now c website_id date_from date_to columns =
     (make_api_call L env net now c ''/api/analytics/v1/query'' ''POST''
        (Some (metrics_payload website_id date_from date_to
           (map (\<lambda>n. JObj [(''column_id'', JStr (the (metric_mapping n)))])
                (filter (\<lambda>n. metric_mapping n \<noteq> None) columns)))) None,
      map (\<lambda>n. ''Unknown column: '' @ n) (filter (\<lambda>n. metric_mapping n = None) columns)) \<and>
   metric_mapping ''visits'' = Some ''sessions'' \<and>
   metric_mapping ''bogus_column'' = None \<and>
   column_loop [''visits'', ''bogus_column''] [] [] =
     ([JObj [(''column_id'', JStr ''sessions'')]], [''Unknown column: bogus_column''])"
  by (simp add: column_loop_acc PiwikAnalytics_get_metrics_def) (simp add: metric_mapping_def)

lemma column_loop_filter:
  "metric_mapping x = None \<Longrightarrow>
   fst (column_loop (filter (\<lambda>n. n \<noteq> x) columns) cfgs ws) = fst (column_loop columns cfgs ws)"
proof -
  assume "metric_mapping x = None"
  then have "filter (\<lambda>n. metric_mapping n \<noteq> None) (filter (\<lambda>n. n \<noteq> x) columns) =
             filter (\<lambda>n. metric_mapping n \<noteq> None) columns"
    by (induction columns) auto
  then show ?thesis by (simp add: column_loop_acc)
qed

text \<open>
  C8. \<open>avg_order_value\<close> is not a key of the table: the resolved column list of a request
  is the one of the request without that name, so the name contributes no entry.
\<close>

theorem avg_order_value_unresolvable:
  "metric_mapping ''avg_order_value'' = None \<and>
   fst (column_loop columns [] []) =
     fst (column_loop (filter (\<lambda>n. n \<noteq> ''avg_order_value'') columns) [] []) \<and>
   column_loop [''avg_order_value''] [] [] = ([], [''Unknown column: avg_order_value''])"
proof -
  have m: "metric_mapping ''avg_order_value'' = None"
    by (simp add: metric_mapping_def)
  with column_loop_filter [OF m, of columns "[]" "[]"] show ?thesis
    by (simp add: m)
qed


lemma piwik_init_None_iff:
  "(piwik_init env = None) =
   (env ''PIWIK_PRO_CLIENT_ID'' = None \<or> env ''PIWIK_PRO_CLIENT_ID'' = Some [] \<or>
    env ''PIWIK_PRO_CLIENT_SECRET'' = None \<or> env ''PIWIK_PRO_CLIENT_SECRET'' = Some [])"
  by (auto simp: piwik_init_def PIWIK_PRO_CLIENT_ID_def PIWIK_PRO_CLIENT_SECRET_def
      split: option.splits)

section \<open>The tools\<close>

text \<open>
  C4. When start-up built no client (a credential is missing or empty), each of the five
  tools raises the exception "client not initialized", sends no request and leaves the
  global unset.
\<close>

theorem tools_require_client:
  assumes "piwik_init env = None"
  shows "list_websites L env net now (piwik_init env) = (Inl not_initialized, None, []) \<and>
         get_website_details L env net now (piwik_init env) website_id =
           (Inl not_initialized, None, []) \<and>
         get_metrics L env net now (piwik_init env) website_id date_from date_to columns =
           (Inl not_initialized, None, []) \<and>
         create_annotation L env net now today (piwik_init env) website_id content date visibility =
           (Inl not_initialized, None, []) \<and>
         get_annotations L env net now (piwik_init env) website_id =
           (Inl not_initialized, None, []) \<and>
         not_initialized =
           Exception ''Piwik PRO API client not initialized. Check credentials.''"
  using assms
  by (simp add: list_websites_def get_website_details_def get_metrics_def
      create_annotation_def get_annotations_def not_initialized_def)

text \<open>C4 on an environment without the client secret.\<close>

theorem tools_require_client_witness:
  "piwik_init env_no_secret = None \<and>
   list_websites sample_lib env_no_secret (net_const (Responded sites_json)) 1000
       (piwik_init env_no_secret) =
     (Inl (Exception ''Piwik PRO API client not initialized. Check credentials.''), None, []) \<and>
   get_metrics sample_lib env_no_secret (net_const (Responded sites_json)) 1000
       (piwik_init env_no_secret) ''site'' ''2024-01-01'' ''2024-01-31'' [''visits''] =
     (Inl (Exception ''Piwik PRO API client not initialized. Check credentials.''), None, [])"
proof -
  have h: "piwik_init env_no_secret = None"
    by (simp add: piwik_init_None_iff env_no_secret_def)
  show ?thesis
    using h
      tools_require_client [OF h, of sample_lib "net_const (Responded sites_json)" 1000
        "''site''" "''2024-01-01''" "''2024-01-31''" "[''visits'']"]
    by simp
qed

lemma make_api_call_trace_nonempty:
  assumes "method \<in> {''GET'', ''POST'', ''PUT'', ''DELETE''}"
  shows "snd (snd (make_api_call L env net now c endpoint method data params)) \<noteq> []"
proof (cases "token_valid c now")
  case True
  from assms obtain rq where
    "build_request (BASE_URL env @ endpoint) (api_headers L (token c)) method data params = Some rq"
    by (cases "build_request (BASE_URL env @ endpoint) (api_headers L (token c)) method data params")
       (auto simp: build_request_None_iff)
  with get_auth_token_hit [OF True, of L env net] show ?thesis
    by (simp add: make_api_call_def split: http_result.splits option.splits sum.splits)
next
  case False
  from get_auth_token_miss_trace [OF False, of L env net]
  obtain res c1 where g: "get_auth_token L env net now c = (res, c1, [token_request env c])"
    by (cases "get_auth_token L env net now c") auto
  then show ?thesis
    by (simp add: make_api_call_def split: http_result.splits option.splits sum.splits)
qed

lemma tool_return_trace: "snd (snd (tool_return L out)) = snd (snd out)"
  by (cases out) (simp add: tool_return_def)

text \<open>
  C3. \<open>create_annotation\<close> checks its arguments before it sends anything. A content of
  more than 150 characters always ends in an exception with no request sent. With a client
  and a website identifier: an empty content and a content of more than 150 characters are
  rejected, a visibility other than \<open>private\<close> and \<open>public\<close> is rejected, each with no
  request sent; otherwise the call goes on to the client (and a request is sent), with
  visibility \<open>private\<close> when the argument is omitted.
\<close>

theorem create_annotation_validation:
  "(150 < length content \<longrightarrow>
      (\<exists>m. create_annotation L env net now today piwik website_id content date visibility =
         (Inl (Exception m), piwik, []))) \<and>
   (website_id \<noteq> [] \<and> content = [] \<longrightarrow>
      create_annotation L env net now today (Some c) website_id content date visibility =
        (Inl (Exception ''content is required''), Some c, [])) \<and>
   (website_id \<noteq> [] \<and> 150 < length content \<longrightarrow>
      create_annotation L env net now today (Some c) website_id content date visibility =
        (Inl (Exception ''content must be 150 characters or less''), Some c, [])) \<and>
   (website_id \<noteq> [] \<and> content \<noteq> [] \<and> length content \<le> 150 \<and>
    v \<noteq> ''private'' \<and> v \<noteq> ''public'' \<longrightarrow>
      create_annotation L env net now today (Some c) website_id content date (Some v) =
        (Inl (Exception (''visibility must be '' @ quoted ''private'' @ '' or '' @
                         quoted ''public'')), Some c, [])) \<and>
   (website_id \<noteq> [] \<and> content \<noteq> [] \<and> length content \<le> 150 \<and>
    (v = ''private'' \<or> v = ''public'') \<longrightarrow>
      create_annotation L env net now today (Some c) website_id content date (Some v) =
        tool_return L (make_api_call L env net now c
          ''/api/analytics/v1/manage/annotation/user/'' ''POST''
          (Some (annotation_payload website_id content date v today)) None) \<and>
      snd (snd (create_annotation L env net now today (Some c) website_id content date (Some v)))
        \<noteq> []) \<and>
   (website_id \<noteq> [] \<and> content \<noteq> [] \<and> length content \<le> 150 \<longrightarrow>
      create_annotation L env net now today (Some c) website_id content date None =
        tool_return L (make_api_call L env net now c
          ''/api/analytics/v1/manage/annotation/user/'' ''POST''
          (Some (annotation_payload website_id content date ''private'' today)) None) \<and>
      snd (snd (create_annotation L env net now today (Some c) website_id content date None))
        \<noteq> [])"
proof -
  have ne: "\<And>d. snd (snd (tool_return L (make_api_call L env net now c
          ''/api/analytics/v1/manage/annotation/user/'' ''POST'' d None))) \<noteq> []"
    using make_api_call_trace_nonempty [of "''POST''" L env net now c
        "''/api/analytics/v1/manage/annotation/user/''" _ None]
    by (simp add: tool_return_trace)
  have 1: "150 < length content \<longrightarrow>
      (\<exists>m. create_annotation L env net now today piwik website_id content date visibility =
         (Inl (Exception m), piwik, []))"
    by (auto simp: create_annotation_def not_initialized_def Let_def split: option.splits)
  have 2: "website_id \<noteq> [] \<and> content = [] \<longrightarrow>
      create_annotation L env net now today (Some c) website_id content date visibility =
        (Inl (Exception ''content is required''), Some c, [])"
    by (simp add: create_annotation_def Let_def)
  have 3: "website_id \<noteq> [] \<and> 150 < length content \<longrightarrow>
      create_annotation L env net now today (Some c) website_id content date visibility =
        (Inl (Exception ''content must be 150 characters or less''), Some c, [])"
    by (auto simp: create_annotation_def Let_def)
  have 4: "website_id \<noteq> [] \<and> content \<noteq> [] \<and> length content \<le> 150 \<and>
    v \<noteq> ''private'' \<and> v \<noteq> ''public'' \<longrightarrow>
      create_annotation L env net now today (Some c) website_id content date (Some v) =
        (Inl (Exception (''visibility must be '' @ quoted ''private'' @ '' or '' @
                         quoted ''public'')), Some c, [])"
    by (simp add: create_annotation_def Let_def)
  have 5: "website_id \<noteq> [] \<and> content \<noteq> [] \<and> length content \<le> 150 \<and>
    (v = ''private'' \<or> v = ''public'') \<longrightarrow>
      create_annotation L env net now today (Some c) website_id content date (Some v) =
        tool_return L (make_api_call L env net now c
          ''/api/analytics/v1/manage/annotation/user/'' ''POST''
          (Some (annotation_payload website_id content date v today)) None)"
    by (auto simp: create_annotation_def Let_def PiwikAnalytics_create_annotation_def)
  have 6: "website_id \<noteq> [] \<and> content \<noteq> [] \<and> length content \<le> 150 \<longrightarrow>
      create_annotation L env net now today (Some c) website_id content date None =
        tool_return L (make_api_call L env net now c
          ''/api/analytics/v1/manage/annotation/user/'' ''POST''
          (Some (annotation_payload website_id content date ''private'' today)) None)"
    by (simp add: create_annotation_def Let_def PiwikAnalytics_create_annotation_def)
  from 5 ne have t5: "website_id \<noteq> [] \<and> content \<noteq> [] \<and> length content \<le> 150 \<and>
    (v = ''private'' \<or> v = ''public'') \<longrightarrow>
      snd (snd (create_annotation L env net now today (Some c) website_id content date (Some v)))
        \<noteq> []"
    by simp
  from 6 ne have t6: "website_id \<noteq> [] \<and> content \<noteq> [] \<and> length content \<le> 150 \<longrightarrow>
      snd (snd (create_annotation L env net now today (Some c) website_id content date None))
        \<noteq> []"
    by simp
  from 1 2 3 4 5 t5 6 t6 show ?thesis by blast
qed

text \<open>
  C3 on contents of 151 and of 150 characters, on visibility \<open>secret\<close> and on an
  empty content.
\<close>

theorem create_annotation_validation_witness:
  "150 < length (content_of_length 151) \<and>
   create_annotation sample_lib env_default (net_const (Responded sites_json)) 1000 ''2024-05-01''
       (Some client_cached) ''site'' (content_of_length 151) None None =
     (Inl (Exception ''content must be 150 characters or less''), Some client_cached, []) \<and>
   length (content_of_length 150) \<le> 150 \<and>
   fst (create_annotation sample_lib env_default (net_const (Responded sites_json)) 1000
       ''2024-05-01'' (Some client_cached) ''site'' (content_of_length 150) None None) =
     Inr ''<dumps>'' \<and>
   map req_json (snd (snd (create_annotation sample_lib env_default
       (net_const (Responded sites_json)) 1000 ''2024-05-01'' (Some client_cached) ''site''
       (content_of_length 150) None None))) =
     [Some (annotation_payload ''site'' (content_of_length 150) None ''private'' ''2024-05-01'')] \<and>
   create_annotation sample_lib env_default (net_const (Responded sites_json)) 1000 ''2024-05-01''
       (Some client_cached) ''site'' ''launch'' None (Some ''secret'') =
     (Inl (Exception (''visibility must be '' @ quoted ''private'' @ '' or '' @
        quoted ''public'')), Some client_cached, []) \<and>
   create_annotation sample_lib env_default (net_const (Responded sites_json)) 1000 ''2024-05-01''
       (Some client_cached) ''site'' [] None None =
     (Inl (Exception ''content is required''), Some client_cached, [])"
proof -
  have l151: "150 < length (content_of_length 151)"
    and l150: "length (content_of_length 150) \<le> 150"
    and n150: "content_of_length 150 \<noteq> []"
    by (simp_all add: content_of_length_def)
  have v: "token_valid client_cached 1000"
    by (simp add: token_valid_def client_cached_def client_fresh_def PiwikAnalytics_init_def)
  have g: "get_auth_token sample_lib env_default (net_const (Responded sites_json)) 1000 client_cached =
      (Inr (JStr ''abc''), client_cached, [])"
    using get_auth_token_hit [OF v, of sample_lib env_default "net_const (Responded sites_json)"]
    by (simp add: client_cached_def)
  have b: "BASE_URL env_default = ''https://analytics.piwik.pro''"
    by (simp add: BASE_URL_def PIWIK_PRO_DOMAIN_def env_default_def)
  let ?P = "annotation_payload ''site'' (content_of_length 150) None ''private'' ''2024-05-01''"
  let ?rq = "\<lparr>req_method = ''POST'',
         req_url = ''https://analytics.piwik.pro/api/analytics/v1/manage/annotation/user/'',
         req_headers = api_headers sample_lib (JStr ''abc''), req_auth = None, req_data = None,
         req_json = Some ?P, req_params = None\<rparr>"
  have br: "build_request (BASE_URL env_default @ ''/api/analytics/v1/manage/annotation/user/'')
      (api_headers sample_lib (JStr ''abc'')) ''POST'' (Some ?P) None = Some ?rq"
    by (simp add: build_request_def b)
  have nr: "net_const (Responded sites_json) ?rq = Responded sites_json"
    by (simp add: net_const_def)
  have rs: "raise_for_status sites_json = None"
    by (simp add: raise_for_status_def sites_json_def)
  have bj: "body_json sites_json = Inr (JObj [(''data'', JArr [])])"
    by (simp add: sites_json_def)
  have call: "make_api_call sample_lib env_default (net_const (Responded sites_json)) 1000
      client_cached ''/api/analytics/v1/manage/annotation/user/'' ''POST'' (Some ?P) None =
      (Inr (JObj [(''data'', JArr [])]), client_cached, [?rq])"
    using make_api_call_responded [OF g br nr] rs bj by simp
  have dm: "\<And>v. dumps sample_lib v = ''<dumps>''"
    by (simp add: sample_lib_def)
  show ?thesis
    using l151 l150 n150
      create_annotation_validation [of "content_of_length 151" sample_lib env_default
        "net_const (Responded sites_json)" 1000 "''2024-05-01''" "Some client_cached" "''site''"
        None None client_cached "''secret''"]
      create_annotation_validation [of "content_of_length 150" sample_lib env_default
        "net_const (Responded sites_json)" 1000 "''2024-05-01''" "Some client_cached" "''site''"
        None None client_cached "''secret''"]
      create_annotation_validation [of "''launch''" sample_lib env_default
        "net_const (Responded sites_json)" 1000 "''2024-05-01''" "Some client_cached" "''site''"
        None None client_cached "''secret''"]
      create_annotation_validation [of "[]" sample_lib env_default
        "net_const (Responded sites_json)" 1000 "''2024-05-01''" "Some client_cached" "''site''"
        None None client_cached "''secret''"]
    by (simp add: call tool_return_def dm)
qed

section \<open>Failures of the token exchange and of an API call\<close>

text \<open>
  C10, amended. When the token exchange is made and fails with a transport error (the
  request raises) or with an error status (\<open>raise_for_status\<close> raises, which it does for
  the statuses 400 to 599), \<open>_get_auth_token\<close> raises
  \<open>Exception("Authentication failed: ...")\<close> and the client is the one before the call:
  token and expiry are unchanged. More generally, whenever it raises that exception the
  client is unchanged.
\<close>

theorem token_exchange_failure_keeps_cache:
  "(\<not> token_valid c now \<and> net (token_request env c) = RequestFailed msg ropt \<longrightarrow>
      get_auth_token L env net now c =
        (Inl (Exception (''Authentication failed: '' @ msg)), c, [token_request env c])) \<and>
   (\<not> token_valid c now \<and> net (token_request env c) = Responded r \<and>
    raise_for_status r = Some hmsg \<longrightarrow>
      get_auth_token L env net now c =
        (Inl (Exception (''Authentication failed: '' @ hmsg)), c, [token_request env c])) \<and>
   (\<not> token_valid c now \<and> net (token_request env c) = Responded r \<and>
    400 \<le> status_code r \<and> status_code r < 600 \<longrightarrow>
      (\<exists>m. get_auth_token L env net now c =
        (Inl (Exception (''Authentication failed: '' @ m)), c, [token_request env c]))) \<and>
   (get_auth_token L env net now c = (Inl (Exception m), c1, tr) \<longrightarrow> c1 = c)"
proof -
  have 1: "\<not> token_valid c now \<and> net (token_request env c) = RequestFailed msg ropt \<longrightarrow>
      get_auth_token L env net now c =
        (Inl (Exception (''Authentication failed: '' @ msg)), c, [token_request env c])"
    by (simp add: get_auth_token_def Let_def)
  have 2: "\<And>h. \<not> token_valid c now \<and> net (token_request env c) = Responded r \<and>
    raise_for_status r = Some h \<longrightarrow>
      get_auth_token L env net now c =
        (Inl (Exception (''Authentication failed: '' @ h)), c, [token_request env c])"
    by (simp add: get_auth_token_def Let_def)
  have 3: "\<not> token_valid c now \<and> net (token_request env c) = Responded r \<and>
    400 \<le> status_code r \<and> status_code r < 600 \<longrightarrow>
      (\<exists>m. get_auth_token L env net now c =
        (Inl (Exception (''Authentication failed: '' @ m)), c, [token_request env c]))"
  proof (cases "raise_for_status r")
    case None
    then show ?thesis by (auto simp: raise_for_status_None_iff)
  next
    case (Some h)
    with 2 [of h] show ?thesis by auto
  qed
  have 4: "get_auth_token L env net now c = (Inl (Exception m), c1, tr) \<longrightarrow> c1 = c"
    using get_auth_token_Exception_unchanged by blast
  from 1 2 [of hmsg] 3 4 show ?thesis by blast
qed

text \<open>
  C10, amended, on a refused connection and on a 401 response, from an empty cache and
  from an expired one.
\<close>

theorem token_exchange_failure_keeps_cache_witness:
  "\<not> token_valid client_fresh 1000 \<and>
   get_auth_token sample_lib env_default (net_const (RequestFailed ''Connection refused'' None)) 1000
       client_fresh =
     (Inl (Exception ''Authentication failed: Connection refused''), client_fresh,
      [token_request env_default client_fresh]) \<and>
   status_code token_denied = 401 \<and>
   get_auth_token sample_lib env_default (net_const (Responded token_denied)) 1000 client_fresh =
     (Inl (Exception (''Authentication failed: 401 Client Error: Unauthorized for url: '' @
        ''https://analytics.piwik.pro/auth/token'')), client_fresh,
      [token_request env_default client_fresh]) \<and>
   \<not> token_valid client_cached 5000 \<and>
   get_auth_token sample_lib env_default (net_const (Responded token_denied)) 5000 client_cached =
     (Inl (Exception (''Authentication failed: 401 Client Error: Unauthorized for url: '' @
        ''https://analytics.piwik.pro/auth/token'')), client_cached,
      [token_request env_default client_cached]) \<and>
   token client_cached = JStr ''abc'' \<and> token_expiry client_cached = Some (Fin 4600)"
proof -
  have nv: "\<not> token_valid client_fresh 1000"
    by (simp add: token_valid_def client_fresh_def PiwikAnalytics_init_def)
  have nv2: "\<not> token_valid client_cached 5000"
    by (simp add: token_valid_def client_cached_def)
  have f: "\<And>c. net_const (RequestFailed ''Connection refused'' None) (token_request env_default c) =
      RequestFailed ''Connection refused'' None"
    and d: "\<And>c. net_const (Responded token_denied) (token_request env_default c) =
      Responded token_denied"
    by (simp_all add: net_const_def)
  have s: "status_code token_denied = 401"
    by (simp add: token_denied_def)
  have n401: "str_nat 401 = ''401''"
    by (simp add: str_nat.simps)
  have h: "raise_for_status token_denied =
      Some (''401 Client Error: Unauthorized for url: '' @ ''https://analytics.piwik.pro/auth/token'')"
    by (simp add: raise_for_status_def token_denied_def n401)
  have t: "token client_cached = JStr ''abc'' \<and> token_expiry client_cached = Some (Fin 4600)"
    by (simp add: client_cached_def)
  show ?thesis
    using nv nv2 s t
      token_exchange_failure_keeps_cache [of client_fresh 1000
        "net_const (RequestFailed ''Connection refused'' None)" env_default
        "''Connection refused''" None sample_lib]
      token_exchange_failure_keeps_cache [of client_fresh 1000
        "net_const (Responded token_denied)" env_default _ _ sample_lib token_denied
        "''401 Client Error: Unauthorized for url: '' @ ''https://analytics.piwik.pro/auth/token''"]
      token_exchange_failure_keeps_cache [of client_cached 5000
        "net_const (Responded token_denied)" env_default _ _ sample_lib token_denied
        "''401 Client Error: Unauthorized for url: '' @ ''https://analytics.piwik.pro/auth/token''"]
    by (simp add: f d h)
qed


text \<open>
  C10 as stated fails. A response with status 300 is outside 200..299 and passes
  \<open>raise_for_status\<close>; its body holds a token and an \<open>expires_in\<close> that is a string, so the
  call raises \<open>TypeError\<close> after it has assigned \<open>self.token\<close>: the exchange failed on a
  non-2xx response and the cached token changed from \<open>abc\<close> to \<open>xyz\<close>.
\<close>

theorem token_exchange_partial_update:
  "status_code token_partial = 300 \<and>
   token client_cached = JStr ''abc'' \<and>
   get_auth_token sample_lib env_default (net_const (Responded token_partial)) 5000 client_cached =
     (Inl (TypeError (''unsupported operand type(s) for +: '' @ quoted ''float'' @ '' and '' @
        quoted ''str'')),
      client_cached\<lparr>token := JStr ''xyz''\<rparr>,
      [token_request env_default client_cached]) \<and>
   token (client_cached\<lparr>token := JStr ''xyz''\<rparr>) = JStr ''xyz''"
proof -
  have nv: "\<not> token_valid client_cached 5000"
    by (simp add: token_valid_def client_cached_def)
  have n: "net_const (Responded token_partial) (token_request env_default client_cached) =
      Responded token_partial"
    by (simp add: net_const_def)
  have r: "raise_for_status token_partial = None"
    by (simp add: raise_for_status_def token_partial_def)
  have j: "body_json token_partial =
      Inr (JObj [(''access_token'', JStr ''xyz''), (''expires_in'', JStr ''3600'')])"
    by (simp add: token_partial_def)
  have g: "get_auth_token sample_lib env_default (net_const (Responded token_partial)) 5000 client_cached =
     (Inl (TypeError (''unsupported operand type(s) for +: '' @ quoted ''float'' @ '' and '' @
        quoted ''str'')),
      client_cached\<lparr>token := JStr ''xyz''\<rparr>,
      [token_request env_default client_cached])"
    by (simp add: get_auth_token_def nv n r j Let_def)
  have s: "status_code token_partial = 300"
    by (simp add: token_partial_def)
  have t: "token client_cached = JStr ''abc''"
    by (simp add: client_cached_def)
  from g s t show ?thesis by simp
qed

text \<open>Evaluations shared by the examples below.\<close>

lemma get_auth_token_exchange_ok:
  assumes "\<not> token_valid c now" and "net (token_request env c) = Responded r"
    and "raise_for_status r = None" and "body_json r = Inr (JObj kvs)"
    and "map_of kvs ''access_token'' = Some tok"
    and "float_add L (Fin now) (case map_of kvs ''expires_in'' of None \<Rightarrow> JInt 3600 | Some v \<Rightarrow> v) = Inr e"
  shows "get_auth_token L env net now c =
           (Inr tok, c\<lparr>token := tok, token_expiry := Some e\<rparr>, [token_request env c])"
  using assms by (auto simp: get_auth_token_def Let_def split: option.splits)

lemma sample_plus_int:
  "float_plus_int sample_lib (Fin 1000) 3600 = Inr (Fin 4600)"
  "float_plus_int sample_lib (Fin 1001) 3600 = Inr (Fin 4601)"
  "float_plus_int sample_lib (Fin 4600) 60 = Inr (Fin 4660)"
  by (simp_all add: float_plus_int_def sample_lib_def sample_to_float_def sample_fadd_def
      exact_int_def)

lemma client_cached_valid: "token_valid client_cached 1000"
  by (simp add: token_valid_def client_cached_def)

lemma client_cached_token:
  "get_auth_token L env net 1000 client_cached = (Inr (JStr ''abc''), client_cached, [])"
  using get_auth_token_hit [OF client_cached_valid, of L env net]
  by (simp add: client_cached_def)

lemma base_url_default: "BASE_URL env_default = ''https://analytics.piwik.pro''"
  by (simp add: BASE_URL_def PIWIK_PRO_DOMAIN_def env_default_def)

lemma sites_request_built:
  "build_request (BASE_URL env_default @ ''/api/apps/v2'') (api_headers sample_lib (JStr ''abc''))
     ''GET'' None None = Some sites_request"
  by (simp add: build_request_def base_url_default api_headers_def format_value_def
      sites_request_def)

lemma sample_dumps: "dumps sample_lib v = ''<dumps>''"
  by (simp add: sample_lib_def)

text \<open>
  C6. An API call whose request is answered with a status from 200 to 299 returns the
  decoded value when the body decodes as JSON, and otherwise returns the text of the body
  as it is; it does not raise.
\<close>

theorem api_call_success_body:
  assumes "get_auth_token L env net now c = (Inr tok, c1, tr)"
    and "build_request (BASE_URL env @ endpoint) (api_headers L tok) method data params = Some rq"
    and "net rq = Responded r"
    and "200 \<le> status_code r" and "status_code r < 300"
  shows "make_api_call L env net now c endpoint method data params =
     ((case body_json r of Inr v \<Rightarrow> Inr v | Inl _ \<Rightarrow> Inr (JStr (body_text r))), c1, tr @ [rq])"
proof -
  from assms(4,5) have "raise_for_status r = None"
    by (simp add: raise_for_status_def)
  with make_api_call_responded [OF assms(1-3)] show ?thesis
    by (simp split: sum.splits)
qed

text \<open>C6 on a 200 response with the body \<open>pong\<close> and on one with a JSON body.\<close>

theorem api_call_success_body_witness:
  "200 \<le> status_code sites_text \<and> status_code sites_text < 300 \<and>
   body_json sites_text = Inl ''Expecting value: line 1 column 1 (char 0)'' \<and>
   make_api_call sample_lib env_default (net_const (Responded sites_text)) 1000 client_cached
       ''/api/apps/v2'' ''GET'' None None =
     (Inr (JStr ''pong''), client_cached, [sites_request]) \<and>
   200 \<le> status_code sites_json \<and> status_code sites_json < 300 \<and>
   make_api_call sample_lib env_default (net_const (Responded sites_json)) 1000 client_cached
       ''/api/apps/v2'' ''GET'' None None =
     (Inr (JObj [(''data'', JArr [])]), client_cached, [sites_request])"
proof -
  have t: "200 \<le> status_code sites_text" "status_code sites_text < 300"
    and j: "200 \<le> status_code sites_json" "status_code sites_json < 300"
    by (simp_all add: sites_text_def sites_json_def)
  have nt: "net_const (Responded sites_text) sites_request = Responded sites_text"
    and nj: "net_const (Responded sites_json) sites_request = Responded sites_json"
    by (simp_all add: net_const_def)
  have bt: "body_json sites_text = Inl ''Expecting value: line 1 column 1 (char 0)''"
      "body_text sites_text = ''pong''"
    and bj: "body_json sites_json = Inr (JObj [(''data'', JArr [])])"
    by (simp_all add: sites_text_def sites_json_def)
  show ?thesis
    using t j bt bj
      api_call_success_body [where net = "net_const (Responded sites_text)" and
        endpoint = "''/api/apps/v2''", OF client_cached_token sites_request_built nt t]
      api_call_success_body [where net = "net_const (Responded sites_json)" and
        endpoint = "''/api/apps/v2''", OF client_cached_token sites_request_built nj j]
    by simp
qed

text \<open>
  C5, amended. An API call whose request is answered with a status from 400 to 599 raises
  an exception whose message holds the message of the HTTP error, then the decoded body
  (through \<open>json.dumps\<close>) when the body decodes as JSON and the text of the body otherwise,
  then the status code.
\<close>

theorem api_call_http_error:
  assumes "get_auth_token L env net now c = (Inr tok, c1, tr)"
    and "build_request (BASE_URL env @ endpoint) (api_headers L tok) method data params = Some rq"
    and "net rq = Responded r"
    and "400 \<le> status_code r" and "status_code r < 600"
  shows "make_api_call L env net now c endpoint method data params =
     (Inl (Exception
        (''API call failed: '' @
         (str_nat (status_code r) @
          (if status_code r < 500 then '' Client Error: '' else '' Server Error: '') @
          reason r @ '' for url: '' @ resp_url r) @
         (case body_json r of
            Inr details \<Rightarrow> ''\<newline>Error details: '' @ dumps L details
          | Inl _ \<Rightarrow> ''\<newline>Response text: '' @ body_text r) @
         ''\<newline>Status code: '' @ str_nat (status_code r))),
      c1, tr @ [rq])"
proof -
  from assms(4,5) have "raise_for_status r =
      Some (str_nat (status_code r) @
        (if status_code r < 500 then '' Client Error: '' else '' Server Error: '') @
        reason r @ '' for url: '' @ resp_url r)"
    by (simp add: raise_for_status_def)
  with make_api_call_responded [OF assms(1-3)] show ?thesis
    by (simp add: api_error_msg_def)
qed

text \<open>C5, amended, on a 404 response with a JSON body and a 503 response with a text body.\<close>

theorem api_call_http_error_witness:
  "400 \<le> status_code sites_not_found \<and> status_code sites_not_found < 600 \<and>
   body_json sites_not_found = Inr (JObj [(''message'', JStr ''gone'')]) \<and>
   make_api_call sample_lib env_default (net_const (Responded sites_not_found)) 1000
       client_cached ''/api/apps/v2'' ''GET'' None None =
     (Inl (Exception
        (''API call failed: 404 Client Error: Not Found for url: '' @
         ''https://analytics.piwik.pro/api/apps/v2'' @
         ''\<newline>Error details: <dumps>'' @ ''\<newline>Status code: 404'')),
      client_cached, [sites_request]) \<and>
   400 \<le> status_code sites_unavailable \<and> status_code sites_unavailable < 600 \<and>
   make_api_call sample_lib env_default (net_const (Responded sites_unavailable)) 1000
       client_cached ''/api/apps/v2'' ''GET'' None None =
     (Inl (Exception
        (''API call failed: 503 Server Error: Service Unavailable for url: '' @
         ''https://analytics.piwik.pro/api/apps/v2'' @
         ''\<newline>Response text: try later'' @ ''\<newline>Status code: 503'')),
      client_cached, [sites_request])"
proof -
  have f: "400 \<le> status_code sites_not_found" "status_code sites_not_found < 600"
    and u: "400 \<le> status_code sites_unavailable" "status_code sites_unavailable < 600"
    by (simp_all add: sites_not_found_def sites_unavailable_def)
  have nf: "net_const (Responded sites_not_found) sites_request = Responded sites_not_found"
    and nu: "net_const (Responded sites_unavailable) sites_request = Responded sites_unavailable"
    by (simp_all add: net_const_def)
  have n: "str_nat 404 = ''404''" "str_nat 503 = ''503''"
    by (simp_all add: str_nat.simps)
  have bf: "body_json sites_not_found = Inr (JObj [(''message'', JStr ''gone'')])"
    by (simp add: sites_not_found_def)
  show ?thesis
    using f u bf
      api_call_http_error [where net = "net_const (Responded sites_not_found)" and
        endpoint = "''/api/apps/v2''", OF client_cached_token sites_request_built nf f]
      api_call_http_error [where net = "net_const (Responded sites_unavailable)" and
        endpoint = "''/api/apps/v2''", OF client_cached_token sites_request_built nu u]
    by (simp add: sites_not_found_def sites_unavailable_def n sample_dumps)
qed

text \<open>
  C5 as stated fails: a response with status 304 is outside 200..299, and the call
  returns its (empty) text instead of raising.
\<close>

theorem api_call_not_modified_returns:
  "status_code sites_not_modified = 304 \<and>
   net_const (Responded sites_not_modified) sites_request = Responded sites_not_modified \<and>
   make_api_call sample_lib env_default (net_const (Responded sites_not_modified)) 1000
       client_cached ''/api/apps/v2'' ''GET'' None None =
     (Inr (JStr []), client_cached, [sites_request])"
proof -
  have n: "net_const (Responded sites_not_modified) sites_request = Responded sites_not_modified"
    by (simp add: net_const_def)
  have r: "raise_for_status sites_not_modified = None"
    by (simp add: raise_for_status_def sites_not_modified_def)
  show ?thesis
    using make_api_call_responded [where net = "net_const (Responded sites_not_modified)" and
        endpoint = "''/api/apps/v2''", OF client_cached_token sites_request_built n] n r
    by (simp add: sites_not_modified_def)
qed

section \<open>The requests of an API call\<close>

lemma make_api_call_requests:
  assumes "rq \<in> set (snd (snd (make_api_call L env net now c endpoint method data params)))"
    and "rq \<noteq> token_request env c"
  shows "req_url rq = BASE_URL env @ endpoint \<and> req_method rq = method \<and>
         req_json rq = (if method = ''POST'' \<or> method = ''PUT'' then data else None)"
proof -
  from make_api_call_trace
  obtain tok where
    "set (snd (snd (make_api_call L env net now c endpoint method data params))) \<subseteq>
       set (snd (snd (get_auth_token L env net now c))) \<union>
       set_option (build_request (BASE_URL env @ endpoint) (api_headers L tok) method data params)"
    by blast
  with assms get_auth_token_trace_subset [of L env net now c]
  have "build_request (BASE_URL env @ endpoint) (api_headers L tok) method data params = Some rq"
    by (cases "build_request (BASE_URL env @ endpoint) (api_headers L tok) method data params")
       auto
  from build_request_Some [OF this] show ?thesis by simp
qed

text \<open>
  C7. \<open>get_metrics\<close> makes one API call, a POST to \<open>/api/analytics/v1/query\<close>; every
  request it sends other than the token request is that POST, and its JSON body is the
  payload with the given \<open>website_id\<close>, \<open>date_from\<close> and \<open>date_to\<close>, the resolved columns,
  and the fixed \<open>format = "json"\<close>, \<open>column_format = "id"\<close>, \<open>offset = 0\<close>, \<open>limit = 100\<close>
  and \<open>sampling = 1.0\<close> (the last one inside the object \<open>options\<close>).
\<close>

theorem metrics_query_payload:
  "fst (PiwikAnalytics_get_metrics L env net now c website_id date_from date_to columns) =
     make_api_call L env net now c ''/api/analytics/v1/query'' ''POST''
       (Some (metrics_payload website_id date_from date_to (fst (column_loop columns [] []))))
       None \<and>
   (\<forall>rq \<in> set (snd (snd (fst (PiwikAnalytics_get_metrics L env net now c
                                  website_id date_from date_to columns)))).
      rq \<noteq> token_request env c \<longrightarrow>
        req_method rq = ''POST'' \<and>
        req_url rq = BASE_URL env @ ''/api/analytics/v1/query'' \<and>
        req_json rq =
          Some (metrics_payload website_id date_from date_to (fst (column_loop columns [] [])))) \<and>
   getitem (metrics_payload website_id date_from date_to cfgs) ''format'' = Inr (JStr ''json'') \<and>
   getitem (metrics_payload website_id date_from date_to cfgs) ''column_format'' =
     Inr (JStr ''id'') \<and>
   getitem (metrics_payload website_id date_from date_to cfgs) ''offset'' = Inr (JInt 0) \<and>
   getitem (metrics_payload website_id date_from date_to cfgs) ''limit'' = Inr (JInt 100) \<and>
   getitem (metrics_payload website_id date_from date_to cfgs) ''options'' =
     Inr (JObj [(''sampling'', JFloat (Fin 1.0))]) \<and>
   getitem (metrics_payload website_id date_from date_to cfgs) ''website_id'' =
     Inr (JStr website_id) \<and>
   getitem (metrics_payload website_id date_from date_to cfgs) ''date_from'' =
     Inr (JStr date_from) \<and>
   getitem (metrics_payload website_id date_from date_to cfgs) ''date_to'' = Inr (JStr date_to) \<and>
   getitem (metrics_payload website_id date_from date_to cfgs) ''columns'' = Inr (JArr cfgs)"
proof -
  have 1: "fst (PiwikAnalytics_get_metrics L env net now c website_id date_from date_to columns) =
     make_api_call L env net now c ''/api/analytics/v1/query'' ''POST''
       (Some (metrics_payload website_id date_from date_to (fst (column_loop columns [] []))))
       None"
    by (simp add: PiwikAnalytics_get_metrics_def split: prod.splits)
  have 2: "\<forall>rq \<in> set (snd (snd (fst (PiwikAnalytics_get_metrics L env net now c
                                  website_id date_from date_to columns)))).
      rq \<noteq> token_request env c \<longrightarrow>
        req_method rq = ''POST'' \<and>
        req_url rq = BASE_URL env @ ''/api/analytics/v1/query'' \<and>
        req_json rq =
          Some (metrics_payload website_id date_from date_to (fst (column_loop columns [] [])))"
    unfolding 1 using make_api_call_requests [where endpoint = "''/api/analytics/v1/query''"]
    by fastforce
  have 3: "getitem (metrics_payload website_id date_from date_to cfgs) ''format'' =
        Inr (JStr ''json'')"
    "getitem (metrics_payload website_id date_from date_to cfgs) ''column_format'' =
        Inr (JStr ''id'')"
    "getitem (metrics_payload website_id date_from date_to cfgs) ''offset'' = Inr (JInt 0)"
    "getitem (metrics_payload website_id date_from date_to cfgs) ''limit'' = Inr (JInt 100)"
    "getitem (metrics_payload website_id date_from date_to cfgs) ''options'' =
        Inr (JObj [(''sampling'', JFloat (Fin 1.0))])"
    "getitem (metrics_payload website_id date_from date_to cfgs) ''website_id'' =
        Inr (JStr website_id)"
    "getitem (metrics_payload website_id date_from date_to cfgs) ''date_from'' =
        Inr (JStr date_from)"
    "getitem (metrics_payload website_id date_from date_to cfgs) ''date_to'' = Inr (JStr date_to)"
    "getitem (metrics_payload website_id date_from date_to cfgs) ''columns'' = Inr (JArr cfgs)"
    by (simp_all add: metrics_payload_def)
  from 1 2 3 show ?thesis by blast
qed


text \<open>C7 on a query for \<open>visits\<close> and \<open>bogus_column\<close> with a cached token.\<close>

theorem metrics_query_payload_witness:
  "snd (snd (fst (PiwikAnalytics_get_metrics sample_lib env_default
       (net_const (Responded sites_json)) 1000 client_cached
       ''site'' ''2024-01-01'' ''2024-01-31'' [''visits'', ''bogus_column'']))) =
     [metrics_request] \<and>
   metrics_request \<noteq> token_request env_default client_cached \<and>
   req_method metrics_request = ''POST'' \<and>
   req_url metrics_request = BASE_URL env_default @ ''/api/analytics/v1/query'' \<and>
   req_json metrics_request =
     Some (metrics_payload ''site'' ''2024-01-01'' ''2024-01-31''
            (fst (column_loop [''visits'', ''bogus_column''] [] [])))"
proof -
  let ?P = "metrics_payload ''site'' ''2024-01-01'' ''2024-01-31''
              [JObj [(''column_id'', JStr ''sessions'')]]"
  have cl: "fst (column_loop [''visits'', ''bogus_column''] [] []) =
      [JObj [(''column_id'', JStr ''sessions'')]]"
    by (simp add: metric_mapping_def)
  have p: "Some ?P = req_json metrics_request"
    by (simp add: metrics_payload_def metrics_request_def)
  have b: "build_request (BASE_URL env_default @ ''/api/analytics/v1/query'')
      (api_headers sample_lib (JStr ''abc'')) ''POST'' (Some ?P) None = Some metrics_request"
    unfolding p
    by (simp add: build_request_def base_url_default api_headers_def format_value_def
        metrics_request_def)
  have n: "net_const (Responded sites_json) metrics_request = Responded sites_json"
    by (simp add: net_const_def)
  have r: "raise_for_status sites_json = None"
    by (simp add: raise_for_status_def sites_json_def)
  have j: "body_json sites_json = Inr (JObj [(''data'', JArr [])])"
    by (simp add: sites_json_def)
  have call: "make_api_call sample_lib env_default (net_const (Responded sites_json)) 1000
      client_cached ''/api/analytics/v1/query'' ''POST'' (Some ?P) None =
      (Inr (JObj [(''data'', JArr [])]), client_cached, [metrics_request])"
    using make_api_call_responded [where net = "net_const (Responded sites_json)" and
        endpoint = "''/api/analytics/v1/query''", OF client_cached_token b n] r j
    by simp
  have d: "metrics_request \<noteq> token_request env_default client_cached"
    by (simp add: metrics_request_def token_request_def)
  note inst = metrics_query_payload [of sample_lib env_default
      "net_const (Responded sites_json)" 1000 client_cached "''site''" "''2024-01-01''"
      "''2024-01-31''" "[''visits'', ''bogus_column'']"]
  from inst have e: "fst (PiwikAnalytics_get_metrics sample_lib env_default
       (net_const (Responded sites_json)) 1000 client_cached
       ''site'' ''2024-01-01'' ''2024-01-31'' [''visits'', ''bogus_column'']) =
     make_api_call sample_lib env_default (net_const (Responded sites_json)) 1000
       client_cached ''/api/analytics/v1/query'' ''POST''
       (Some (metrics_payload ''site'' ''2024-01-01'' ''2024-01-31''
          (fst (column_loop [''visits'', ''bogus_column''] [] [])))) None"
    by (rule conjunct1)
  have t: "snd (snd (fst (PiwikAnalytics_get_metrics sample_lib env_default
       (net_const (Responded sites_json)) 1000 client_cached
       ''site'' ''2024-01-01'' ''2024-01-31'' [''visits'', ''bogus_column'']))) =
     [metrics_request]"
    unfolding e cl call by simp
  from inst have a: "\<forall>rq \<in> set (snd (snd (fst (PiwikAnalytics_get_metrics sample_lib env_default
       (net_const (Responded sites_json)) 1000 client_cached
       ''site'' ''2024-01-01'' ''2024-01-31'' [''visits'', ''bogus_column''])))).
      rq \<noteq> token_request env_default client_cached \<longrightarrow>
        req_method rq = ''POST'' \<and>
        req_url rq = BASE_URL env_default @ ''/api/analytics/v1/query'' \<and>
        req_json rq = Some (metrics_payload ''site'' ''2024-01-01'' ''2024-01-31''
          (fst (column_loop [''visits'', ''bogus_column''] [] [])))"
    by (rule conjunct1 [OF conjunct2])
  have m: "metrics_request \<in> set (snd (snd (fst (PiwikAnalytics_get_metrics sample_lib
       env_default (net_const (Responded sites_json)) 1000 client_cached
       ''site'' ''2024-01-01'' ''2024-01-31'' [''visits'', ''bogus_column'']))))"
    unfolding t by simp
  from bspec [OF a m] d t show ?thesis by blast
qed

lemma piwik_init_domain:
  "piwik_init env = Some c0 \<Longrightarrow> domain c0 = PIWIK_PRO_DOMAIN env"
  by (auto simp: piwik_init_def PiwikAnalytics_init_def split: option.splits if_splits)

text \<open>
  C9. For the client that start-up builds from the environment, in any later state of its
  token cache, every request of an API call goes to \<open>https://\<close> followed by the client's
  domain and the path: the endpoint for the call itself, \<open>/auth/token\<close> for the token
  exchange. That domain is the value of the variable \<open>PIWIK_PRO_DOMAIN\<close>, or
  \<open>analytics.piwik.pro\<close> when the variable is not set. (The method reads the module-level
  \<open>BASE_URL\<close>, which start-up computes from the same value it passes to the client.)
\<close>

theorem request_url_from_domain:
  assumes "piwik_init env = Some c0"
  shows "domain c0 =
           (case env ''PIWIK_PRO_DOMAIN'' of None \<Rightarrow> ''analytics.piwik.pro'' | Some d \<Rightarrow> d) \<and>
         (\<forall>rq \<in> set (snd (snd (make_api_call L env net now
                                  (c0\<lparr>token := t, token_expiry := e\<rparr>)
                                  endpoint method data params))).
            req_url rq = ''https://'' @ domain c0 @
              (if rq = token_request env (c0\<lparr>token := t, token_expiry := e\<rparr>)
               then ''/auth/token'' else endpoint))"
proof -
  let ?c = "c0\<lparr>token := t, token_expiry := e\<rparr>"
  have d: "domain c0 = PIWIK_PRO_DOMAIN env"
    using assms by (rule piwik_init_domain)
  have u: "req_url (token_request env ?c) = ''https://'' @ domain c0 @ ''/auth/token''"
    by (simp add: token_request_def BASE_URL_def d)
  have "req_url rq = ''https://'' @ domain c0 @
          (if rq = token_request env ?c then ''/auth/token'' else endpoint)"
    if "rq \<in> set (snd (snd (make_api_call L env net now ?c endpoint method data params)))"
    for rq
  proof (cases "rq = token_request env ?c")
    case True
    with u show ?thesis by simp
  next
    case False
    with make_api_call_requests [OF that] show ?thesis
      by (simp add: BASE_URL_def d)
  qed
  with d show ?thesis
    by (simp add: PIWIK_PRO_DOMAIN_def)
qed


text \<open>
  C9 on an environment that sets the domain, with a call that exchanges a token first,
  and on one that leaves the default.
\<close>

theorem request_url_from_domain_witness:
  "piwik_init env_custom = Some client_custom \<and>
   domain client_custom = ''example.piwik.pro'' \<and>
   map req_url (snd (snd (make_api_call sample_lib env_custom
       (net_pair (Responded token_ok) (Responded sites_json)) 1000 client_custom
       ''/api/apps/v2'' ''GET'' None None))) =
     [''https://example.piwik.pro/auth/token'', ''https://example.piwik.pro/api/apps/v2''] \<and>
   piwik_init env_default = Some client_fresh \<and>
   domain client_fresh = ''analytics.piwik.pro''"
proof -
  let ?net = "net_pair (Responded token_ok) (Responded sites_json)"
  let ?c1 = "client_custom\<lparr>token := JStr ''abc'', token_expiry := Some (Fin 4600)\<rparr>"
  have ic: "piwik_init env_custom = Some client_custom"
    by (simp add: piwik_init_def PIWIK_PRO_CLIENT_ID_def PIWIK_PRO_CLIENT_SECRET_def
        PIWIK_PRO_DOMAIN_def env_custom_def client_custom_def)
  have id: "piwik_init env_default = Some client_fresh"
    by (simp add: piwik_init_def PIWIK_PRO_CLIENT_ID_def PIWIK_PRO_CLIENT_SECRET_def
        PIWIK_PRO_DOMAIN_def env_default_def client_fresh_def)
  have bu: "BASE_URL env_custom = ''https://example.piwik.pro''"
    by (simp add: BASE_URL_def PIWIK_PRO_DOMAIN_def env_custom_def)
  have nv: "\<not> token_valid client_custom 1000"
    by (simp add: token_valid_def client_custom_def PiwikAnalytics_init_def)
  have n1: "?net (token_request env_custom client_custom) = Responded token_ok"
    by (simp add: net_pair_def token_request_def)
  have r1: "raise_for_status token_ok = None"
    by (simp add: raise_for_status_def token_ok_def)
  have j1: "body_json token_ok = Inr (JObj [(''access_token'', JStr ''abc'')])"
    by (simp add: token_ok_def)
  have g: "get_auth_token sample_lib env_custom ?net 1000 client_custom =
      (Inr (JStr ''abc''), ?c1, [token_request env_custom client_custom])"
    by (rule get_auth_token_exchange_ok [where net = ?net and env = env_custom,
          OF nv n1 r1 j1]) (simp_all add: sample_plus_int)
  have b: "build_request (BASE_URL env_custom @ ''/api/apps/v2'')
      (api_headers sample_lib (JStr ''abc'')) ''GET'' None None = Some custom_sites_request"
    by (simp add: build_request_def bu api_headers_def format_value_def custom_sites_request_def)
  have n2: "?net custom_sites_request = Responded sites_json"
    by (simp add: net_pair_def custom_sites_request_def)
  have tr: "snd (snd (make_api_call sample_lib env_custom ?net 1000 client_custom
      ''/api/apps/v2'' ''GET'' None None)) =
      [token_request env_custom client_custom, custom_sites_request]"
    using make_api_call_responded [where net = ?net and endpoint = "''/api/apps/v2''",
        OF g b n2]
    by (simp split: option.splits sum.splits)
  have u1: "req_url (token_request env_custom client_custom) =
      ''https://example.piwik.pro/auth/token''"
    by (simp add: token_request_def bu)
  have u2: "req_url custom_sites_request = ''https://example.piwik.pro/api/apps/v2''"
    by (simp add: custom_sites_request_def)
  from request_url_from_domain [OF ic, where L = sample_lib and net = ?net and t = JNull and
      e = None and endpoint = "''/api/apps/v2''"]
  have dc: "domain client_custom = ''example.piwik.pro''"
    by (simp add: env_custom_def)
  from request_url_from_domain [OF id, where L = sample_lib and net = ?net and t = JNull and
      e = None and endpoint = "''/api/apps/v2''"]
  have dd: "domain client_fresh = ''analytics.piwik.pro''"
    by (simp add: env_default_def)
  from ic id dc dd tr u1 u2 show ?thesis by simp
qed

section \<open>Token caching\<close>

text \<open>
  When the conversion of \<open>expires_in\<close> to a float overflows, the call raises
  \<open>OverflowError\<close> with the new token already assigned and the expiry as it was.
\<close>

lemma get_auth_token_overflow:
  assumes "\<not> token_valid c now" and "net (token_request env c) = Responded r"
    and "raise_for_status r = None" and "body_json r = Inr (JObj kvs)"
    and "map_of kvs ''access_token'' = Some tok"
    and "map_of kvs ''expires_in'' = Some (JInt n)" and "to_float L n = None"
  shows "get_auth_token L env net now c =
           (Inl (OverflowError ''int too large to convert to float''), c\<lparr>token := tok\<rparr>,
            [token_request env c])"
  using assms by (simp add: get_auth_token_def Let_def float_plus_int_def)

text \<open>
  C1, amended. \<open>_get_auth_token\<close> returns the cached token without any request if and
  only if the cache test holds: the cached token is not falsy (for a string: not empty),
  the expiry is set and not falsy (for a finite float: not zero), and the time is strictly
  before the expiry in the comparison of floats. Otherwise it sends exactly one request,
  the token exchange; when that call returns a token, the response was a JSON object, the
  token is its \<open>access_token\<close> and is now cached, and the new expiry is the sum of the time
  of the call and \<open>expires_in\<close> as Python computes it on floats (an \<open>int\<close> is converted to a
  float and the two floats are added, both with the rounding of the interpreter), with
  3600 for \<open>expires_in\<close> when the object has no such key. So when a call that had to
  exchange returns and a second call finds the cache test true, the second call returns
  the same token and the two calls together sent exactly one request.
\<close>

theorem token_caching:
  "(get_auth_token L env net now c = (Inr (token c), c, [])) = token_valid c now \<and>
   token_valid c now =
     (truthy (token c) \<and>
      (\<exists>e. token_expiry c = Some e \<and> float_truthy e \<and> float_lt (Fin now) e)) \<and>
   float_truthy (Fin x) = (x \<noteq> 0) \<and>
   float_lt (Fin now) (Fin x) = (now < x) \<and>
   (\<not> token_valid c now \<longrightarrow>
      snd (snd (get_auth_token L env net now c)) = [token_request env c]) \<and>
   (\<not> token_valid c now \<and> get_auth_token L env net now c = (Inr tok, c1, tr) \<longrightarrow>
      (\<exists>r kvs e. net (token_request env c) = Responded r \<and> body_json r = Inr (JObj kvs) \<and>
         map_of kvs ''access_token'' = Some tok \<and>
         float_add L (Fin now) (case map_of kvs ''expires_in'' of None \<Rightarrow> JInt 3600 | Some v \<Rightarrow> v) =
           Inr e \<and>
         c1 = c\<lparr>token := tok, token_expiry := Some e\<rparr>)) \<and>
   float_add L (Fin now) (JInt n) =
     (case to_float L n of
        None \<Rightarrow> Inl (OverflowError ''int too large to convert to float'')
      | Some y \<Rightarrow> Inr (fadd L (Fin now) y)) \<and>
   float_add L (Fin now) (JFloat y) = Inr (fadd L (Fin now) y) \<and>
   (\<not> token_valid c now \<and> get_auth_token L env net now c = (Inr tok, c1, tr) \<and>
    token_valid c1 now2 \<longrightarrow>
      get_auth_token L env net2 now2 c1 = (Inr tok, c1, []) \<and>
      length (tr @ snd (snd (get_auth_token L env net2 now2 c1))) = 1)"
proof -
  have 1: "(get_auth_token L env net now c = (Inr (token c), c, [])) = token_valid c now"
    using get_auth_token_hit [of c now L env net] get_auth_token_miss_trace [of c now L env net]
    by (cases "token_valid c now") auto
  have 2: "token_valid c now =
     (truthy (token c) \<and>
      (\<exists>e. token_expiry c = Some e \<and> float_truthy e \<and> float_lt (Fin now) e))"
    by (auto simp: token_valid_def split: option.splits)
  have 3: "\<not> token_valid c now \<longrightarrow>
      snd (snd (get_auth_token L env net now c)) = [token_request env c]"
    using get_auth_token_miss_trace by blast
  have 4: "\<not> token_valid c now \<and> get_auth_token L env net now c = (Inr tok, c1, tr) \<longrightarrow>
      (\<exists>r kvs e. net (token_request env c) = Responded r \<and> body_json r = Inr (JObj kvs) \<and>
         map_of kvs ''access_token'' = Some tok \<and>
         float_add L (Fin now) (case map_of kvs ''expires_in'' of None \<Rightarrow> JInt 3600 | Some v \<Rightarrow> v) =
           Inr e \<and>
         c1 = c\<lparr>token := tok, token_expiry := Some e\<rparr>)"
    using get_auth_token_miss_success [of c now L env net tok c1 tr] by blast
  have 5: "\<not> token_valid c now \<and> get_auth_token L env net now c = (Inr tok, c1, tr) \<and>
    token_valid c1 now2 \<longrightarrow>
      get_auth_token L env net2 now2 c1 = (Inr tok, c1, []) \<and>
      length (tr @ snd (snd (get_auth_token L env net2 now2 c1))) = 1"
  proof (intro impI, elim conjE)
    assume a: "\<not> token_valid c now" and b: "get_auth_token L env net now c = (Inr tok, c1, tr)"
      and v: "token_valid c1 now2"
    from get_auth_token_miss_success [OF a b] have "token c1 = tok" "tr = [token_request env c]"
      by auto
    with get_auth_token_hit [OF v, of L env net2]
    show "get_auth_token L env net2 now2 c1 = (Inr tok, c1, []) \<and>
      length (tr @ snd (snd (get_auth_token L env net2 now2 c1))) = 1"
      by simp
  qed
  have 6: "float_add L (Fin now) (JInt n) =
     (case to_float L n of
        None \<Rightarrow> Inl (OverflowError ''int too large to convert to float'')
      | Some y \<Rightarrow> Inr (fadd L (Fin now) y))"
    "float_add L (Fin now) (JFloat y) = Inr (fadd L (Fin now) y)"
    "float_truthy (Fin x) = (x \<noteq> 0)"
    "float_lt (Fin now) (Fin x) = (now < x)"
    by (simp_all add: float_plus_int_def)
  from 1 2 3 4 5 6 show ?thesis by blast
qed

text \<open>
  C1 as stated fails. A token response whose \<open>access_token\<close> is the empty string is
  cached with expiry 1000 + 3600, and a second call at 1001, before that expiry, makes
  a second exchange: two exchanges for two consecutive calls within the validity window,
  and a cached token that is not returned although the time is before its expiry.
\<close>

theorem empty_token_not_reused:
  "get_auth_token sample_lib env_default (net_const (Responded token_empty)) 1000 client_fresh =
     (Inr (JStr []), client_empty_token, [token_request env_default client_fresh]) \<and>
   token client_empty_token = JStr [] \<and>
   token_expiry client_empty_token = Some (Fin 4600) \<and>
   float_lt (Fin 1001) (Fin 4600) \<and>
   get_auth_token sample_lib env_default (net_const (Responded token_empty)) 1001
       client_empty_token =
     (Inr (JStr []), client_empty_token\<lparr>token_expiry := Some (Fin 4601)\<rparr>,
      [token_request env_default client_empty_token])"
proof -
  have nv: "\<not> token_valid client_fresh 1000" "\<not> token_valid client_empty_token 1001"
    by (simp_all add: token_valid_def client_empty_token_def client_fresh_def
        PiwikAnalytics_init_def)
  have n: "\<And>c. net_const (Responded token_empty) (token_request env_default c) =
      Responded token_empty"
    by (simp add: net_const_def)
  have r: "raise_for_status token_empty = None"
    by (simp add: raise_for_status_def token_empty_def)
  have j: "body_json token_empty = Inr (JObj [(''access_token'', JStr [])])"
    by (simp add: token_empty_def)
  have g1: "get_auth_token sample_lib env_default (net_const (Responded token_empty)) 1000 client_fresh =
      (Inr (JStr []), client_fresh\<lparr>token := JStr [], token_expiry := Some (Fin 4600)\<rparr>,
       [token_request env_default client_fresh])"
    by (rule get_auth_token_exchange_ok [where net = "net_const (Responded token_empty)" and
          env = env_default, OF nv(1) n r j]) (simp_all add: sample_plus_int)
  have g2: "get_auth_token sample_lib env_default (net_const (Responded token_empty)) 1001
      client_empty_token =
      (Inr (JStr []), client_empty_token\<lparr>token := JStr [], token_expiry := Some (Fin 4601)\<rparr>,
       [token_request env_default client_empty_token])"
    by (rule get_auth_token_exchange_ok [where net = "net_const (Responded token_empty)" and
          env = env_default, OF nv(2) n r j]) (simp_all add: sample_plus_int)
  have e: "client_empty_token\<lparr>token := JStr [], token_expiry := Some (Fin 4601)\<rparr> =
      client_empty_token\<lparr>token_expiry := Some (Fin 4601)\<rparr>"
    "client_fresh\<lparr>token := JStr [], token_expiry := Some (Fin 4600)\<rparr> = client_empty_token"
    "token client_empty_token = JStr []" "token_expiry client_empty_token = Some (Fin 4600)"
    by (simp_all add: client_empty_token_def)
  from g1 g2 e show ?thesis by simp
qed


text \<open>
  C1, amended, on a first call at 1000 from an empty cache, a second call at 2000 on a
  network that is down, and a call at the expiry 4600 answered with \<open>expires_in = 60\<close>.
\<close>

theorem token_caching_witness:
  "\<not> token_valid client_fresh 1000 \<and>
   get_auth_token sample_lib env_default (net_const (Responded token_ok)) 1000 client_fresh =
     (Inr (JStr ''abc''), client_cached, [token_request env_default client_fresh]) \<and>
   token_expiry client_cached = Some (Fin 4600) \<and>
   token_valid client_cached 2000 \<and>
   get_auth_token sample_lib env_default (net_const (RequestFailed ''unreachable'' None)) 2000
       client_cached =
     (Inr (JStr ''abc''), client_cached, []) \<and>
   length ([token_request env_default client_fresh] @
     snd (snd (get_auth_token sample_lib env_default (net_const (RequestFailed ''unreachable'' None)) 2000
       client_cached))) = 1 \<and>
   \<not> token_valid client_cached 4600 \<and>
   get_auth_token sample_lib env_default (net_const (Responded token_short)) 4600 client_cached =
     (Inr (JStr ''abc''), client_cached\<lparr>token_expiry := Some (Fin 4660)\<rparr>,
      [token_request env_default client_cached])"
proof -
  have nv: "\<not> token_valid client_fresh 1000" "\<not> token_valid client_cached 4600"
    and v: "token_valid client_cached 2000"
    by (simp_all add: token_valid_def client_cached_def client_fresh_def PiwikAnalytics_init_def)
  have n: "\<And>c. net_const (Responded token_ok) (token_request env_default c) =
      Responded token_ok"
    "\<And>c. net_const (Responded token_short) (token_request env_default c) =
      Responded token_short"
    by (simp_all add: net_const_def)
  have r: "raise_for_status token_ok = None" "raise_for_status token_short = None"
    by (simp_all add: raise_for_status_def token_ok_def token_short_def)
  have j: "body_json token_ok = Inr (JObj [(''access_token'', JStr ''abc'')])"
    "body_json token_short =
       Inr (JObj [(''access_token'', JStr ''abc''), (''expires_in'', JInt 60)])"
    by (simp_all add: token_ok_def token_short_def)
  have g1: "get_auth_token sample_lib env_default (net_const (Responded token_ok)) 1000 client_fresh =
      (Inr (JStr ''abc''), client_fresh\<lparr>token := JStr ''abc'', token_expiry := Some (Fin 4600)\<rparr>,
       [token_request env_default client_fresh])"
    by (rule get_auth_token_exchange_ok [where net = "net_const (Responded token_ok)" and
          env = env_default, OF nv(1) n(1) r(1) j(1)]) (simp_all add: sample_plus_int)
  have g3: "get_auth_token sample_lib env_default (net_const (Responded token_short)) 4600 client_cached =
      (Inr (JStr ''abc''), client_cached\<lparr>token := JStr ''abc'', token_expiry := Some (Fin 4660)\<rparr>,
       [token_request env_default client_cached])"
    by (rule get_auth_token_exchange_ok [where net = "net_const (Responded token_short)" and
          env = env_default, OF nv(2) n(2) r(2) j(2)]) (simp_all add: sample_plus_int)
  have e: "client_fresh\<lparr>token := JStr ''abc'', token_expiry := Some (Fin 4600)\<rparr> =
      client_cached"
    "client_cached\<lparr>token := JStr ''abc'', token_expiry := Some (Fin 4660)\<rparr> =
      client_cached\<lparr>token_expiry := Some (Fin 4660)\<rparr>"
    "token_expiry client_cached = Some (Fin 4600)"
    by (simp_all add: client_cached_def)
  note g1' = g1 [unfolded e(1)]
  from token_caching [where env = env_default and net = "net_const (Responded token_ok)" and
      now = 1000 and c = client_fresh and tok = "JStr ''abc''" and ?c1.0 = client_cached and
      tr = "[token_request env_default client_fresh]" and ?now2.0 = 2000 and
      ?net2.0 = "net_const (RequestFailed ''unreachable'' None)"] nv(1) g1' v
  have two: "get_auth_token sample_lib env_default (net_const (RequestFailed ''unreachable'' None)) 2000
       client_cached = (Inr (JStr ''abc''), client_cached, []) \<and>
     length ([token_request env_default client_fresh] @
       snd (snd (get_auth_token sample_lib env_default (net_const (RequestFailed ''unreachable'' None)) 2000
         client_cached))) = 1"
    by blast
  from nv v g1' g3 [unfolded e(2)] e(3) two show ?thesis by blast
qed

end
